theory Spec2Isabelle
  imports Main
begin

section \<open>Python values and exceptions\<close>

text \<open>
  The attributes of the bot's objects hold JSON-like Python values: the schedule and
  live-feed responses are decoded JSON, and the constructor of \<open>Team\<close> stores what it is
  given. A dictionary is an association list read with \<open>map_of\<close> (first binding wins).
\<close>

datatype pyval =
    PyNone
  | PyBool bool
  | PyInt int
  | PyStr string
  | PyList "pyval list"
  | PyDict "(string \<times> pyval) list"

text \<open>
  The exceptions the code can meet. \<open>FeedUnavailable\<close> and \<open>FeedMalformed\<close> are the two
  failures of the feed reader (network error or timeout, unparseable response);
  \<open>OtherError\<close> stands for any other subclass of \<open>Exception\<close>.
\<close>

datatype exn =
    KeyError
  | IndexError
  | TypeError
  | ValueError
  | FeedUnavailable
  | FeedMalformed
  | OtherError string

text \<open>\<open>obj[key]\<close> with a string key: only a dictionary can be subscripted by a string.\<close>

fun py_getitem :: "pyval \<Rightarrow> string \<Rightarrow> exn + pyval" where
  "py_getitem (PyDict d) k = (case map_of d k of None \<Rightarrow> Inl KeyError | Some v \<Rightarrow> Inr v)"
| "py_getitem v k = Inl TypeError"

text \<open>\<open>n * v\<close> for an integer literal \<open>n\<close>: numbers multiply, sequences repeat.\<close>

fun py_int_mul :: "int \<Rightarrow> pyval \<Rightarrow> exn + pyval" where
  "py_int_mul n (PyInt i) = Inr (PyInt (n * i))"
| "py_int_mul n (PyBool b) = Inr (PyInt (n * (if b then 1 else 0)))"
| "py_int_mul n (PyStr s) = Inr (PyStr (concat (replicate (nat n) s)))"
| "py_int_mul n (PyList xs) = Inr (PyList (concat (replicate (nat n) xs)))"
| "py_int_mul n PyNone = Inl TypeError"
| "py_int_mul n (PyDict d) = Inl TypeError"

text \<open>\<open>a + b\<close>: numbers add (a bool counts as 0 or 1), equal sequence types concatenate.\<close>

fun py_number :: "pyval \<Rightarrow> int option" where
  "py_number (PyInt i) = Some i"
| "py_number (PyBool b) = Some (if b then 1 else 0)"
| "py_number v = None"

definition py_add :: "pyval \<Rightarrow> pyval \<Rightarrow> exn + pyval" where
  "py_add a b =
     (case (py_number a, py_number b) of
        (Some x, Some y) \<Rightarrow> Inr (PyInt (x + y))
      | _ \<Rightarrow>
        (case (a, b) of
           (PyStr s, PyStr t) \<Rightarrow> Inr (PyStr (s @ t))
         | (PyList xs, PyList ys) \<Rightarrow> Inr (PyList (xs @ ys))
         | _ \<Rightarrow> Inl TypeError))"

section \<open>models/team.py\<close>

text \<open>
  Every attribute that \<open>Team.__init__\<close> assigns is a field. \<open>record_attr\<close> is the
  attribute \<open>record\<close> and \<open>private_goalie_pulled\<close> is \<open>_goalie_pulled\<close>.
\<close>

record team =
  team_id :: pyval
  team_name :: pyval
  short_name :: pyval
  tri_code :: pyval
  home_away :: pyval
  tv_channel :: pyval
  games :: pyval
  record_attr :: pyval
  season :: pyval
  skaters :: pyval
  score :: pyval
  shots :: pyval
  power_play :: pyval
  private_goalie_pulled :: pyval
  preferred :: pyval
  goals :: pyval
  lines :: pyval
  overridelines :: pyval
  nss_gamelog :: pyval
  gameday_roster :: pyval
  wins :: pyval
  losses :: pyval
  ot :: pyval
  points :: pyval
  lead_trail_lead1P :: pyval
  lead_trail_lead2P :: pyval
  lead_trail_trail1P :: pyval
  lead_trail_trail2P :: pyval
  team_stats :: pyval
  rank_stats :: pyval
  roster :: pyval

text \<open>
  Lines 44 to 47 of \<open>__init__\<close>: \<open>record["ot"]\<close> under \<open>except KeyError\<close>. Only a
  \<open>KeyError\<close> is replaced by \<open>None\<close>; any other exception leaves the constructor.
\<close>

definition read_ot :: "pyval \<Rightarrow> exn + pyval" where
  "read_ot record' =
     (case py_getitem record' ''ot'' of
        Inr v \<Rightarrow> Inr v
      | Inl e \<Rightarrow> if e = KeyError then Inr PyNone else Inl e)"

text \<open>
  Lines 17 to 50 of \<open>__init__\<close>: the attribute assignments up to \<open>points\<close>. The fields
  filled by the three requests that follow are \<open>None\<close> here.
\<close>

definition Team_init_fields ::
  "pyval \<Rightarrow> pyval \<Rightarrow> pyval \<Rightarrow> pyval \<Rightarrow> pyval \<Rightarrow> pyval \<Rightarrow> pyval \<Rightarrow> pyval \<Rightarrow> pyval
     \<Rightarrow> exn + team" where
  "Team_init_fields team_id' team_name' short_name' tri_code' home_away' tv_channel' games'
       record' season' =
     (case py_getitem record' ''wins'' of
        Inl e \<Rightarrow> Inl e
      | Inr wins' \<Rightarrow>
     (case py_getitem record' ''losses'' of
        Inl e \<Rightarrow> Inl e
      | Inr losses' \<Rightarrow>
     (case read_ot record' of
        Inl e \<Rightarrow> Inl e
      | Inr ot' \<Rightarrow>
     (case py_int_mul 2 wins' of
        Inl e \<Rightarrow> Inl e
      | Inr twice \<Rightarrow>
     (case py_add twice ot' of
        Inl e \<Rightarrow> Inl e
      | Inr points' \<Rightarrow>
        Inr \<lparr> team_id = team_id', team_name = team_name', short_name = short_name',
              tri_code = tri_code', home_away = home_away', tv_channel = tv_channel',
              games = games', record_attr = record', season = season',
              skaters = PyInt 5, score = PyInt 0, shots = PyInt 0,
              power_play = PyBool False, private_goalie_pulled = PyBool False,
              preferred = PyBool False, goals = PyList [], lines = PyDict [],
              overridelines = PyBool False, nss_gamelog = PyNone,
              gameday_roster = PyDict [],
              wins = wins', losses = losses', ot = ot', points = points',
              lead_trail_lead1P = PyNone, lead_trail_lead2P = PyNone,
              lead_trail_trail1P = PyNone, lead_trail_trail2P = PyNone,
              team_stats = PyNone, rank_stats = PyNone, roster = PyNone \<rparr>)))))"

text \<open>
  Lines 52 to 114: three requests to the NHL API, each inside its own
  \<open>try ... except (IndexError, KeyError)\<close>. The body of each \<open>try\<close> (configuration
  lookup, request, decoding and indexing of the answer) is a parameter that reads and
  changes the world outside the process \<open>'w\<close> and gives the values to assign or the
  exception raised. The handler overwrites every attribute of its block, so what a body
  assigned before raising does not matter.
\<close>

record 'w team_api =
  lead_trail_request :: "team \<Rightarrow> 'w \<Rightarrow> (exn + pyval \<times> pyval \<times> pyval \<times> pyval) \<times> 'w"
  stats_request :: "team \<Rightarrow> 'w \<Rightarrow> (exn + pyval \<times> pyval) \<times> 'w"
  roster_request :: "team \<Rightarrow> 'w \<Rightarrow> (exn + pyval) \<times> 'w"

definition index_or_key :: "exn \<Rightarrow> bool" where
  "index_or_key e = (e = IndexError \<or> e = KeyError)"

definition lead_trail_block :: "'w team_api \<Rightarrow> team \<Rightarrow> 'w \<Rightarrow> (exn + team) \<times> 'w" where
  "lead_trail_block api t w =
     (case lead_trail_request api t w of
        (Inr (a, b, c, d), w') \<Rightarrow>
          (Inr (t\<lparr>lead_trail_lead1P := a, lead_trail_lead2P := b,
                  lead_trail_trail1P := c, lead_trail_trail2P := d\<rparr>), w')
      | (Inl e, w') \<Rightarrow>
          if index_or_key e
          then (Inr (t\<lparr>lead_trail_lead1P := PyStr ''N/A-N/A-N/A'',
                        lead_trail_lead2P := PyStr ''N/A-N/A-N/A'',
                        lead_trail_trail1P := PyStr ''N/A-N/A-N/A'',
                        lead_trail_trail2P := PyStr ''N/A-N/A-N/A''\<rparr>), w')
          else (Inl e, w'))"

definition stats_block :: "'w team_api \<Rightarrow> team \<Rightarrow> 'w \<Rightarrow> (exn + team) \<times> 'w" where
  "stats_block api t w =
     (case stats_request api t w of
        (Inr (a, b), w') \<Rightarrow> (Inr (t\<lparr>team_stats := a, rank_stats := b\<rparr>), w')
      | (Inl e, w') \<Rightarrow>
          if index_or_key e
          then (Inr (t\<lparr>team_stats := PyStr ''N/A'', rank_stats := PyStr ''N/A''\<rparr>), w')
          else (Inl e, w'))"

definition roster_block :: "'w team_api \<Rightarrow> team \<Rightarrow> 'w \<Rightarrow> (exn + team) \<times> 'w" where
  "roster_block api t w =
     (case roster_request api t w of
        (Inr a, w') \<Rightarrow> (Inr (t\<lparr>roster := a\<rparr>), w')
      | (Inl e, w') \<Rightarrow>
          if index_or_key e then (Inr (t\<lparr>roster := PyStr ''N/A''\<rparr>), w') else (Inl e, w'))"

text \<open>\<open>Team.__init__\<close>: the new object, or the exception that leaves the constructor.\<close>

definition Team_init ::
  "'w team_api \<Rightarrow> pyval \<Rightarrow> pyval \<Rightarrow> pyval \<Rightarrow> pyval \<Rightarrow> pyval \<Rightarrow> pyval \<Rightarrow> pyval \<Rightarrow> pyval
     \<Rightarrow> pyval \<Rightarrow> 'w \<Rightarrow> (exn + team) \<times> 'w" where
  "Team_init api team_id' team_name' short_name' tri_code' home_away' tv_channel' games'
       record' season' w =
     (case Team_init_fields team_id' team_name' short_name' tri_code' home_away'
             tv_channel' games' record' season' of
        Inl e \<Rightarrow> (Inl e, w)
      | Inr t0 \<Rightarrow>
     (case lead_trail_block api t0 w of
        (Inl e, w1) \<Rightarrow> (Inl e, w1)
      | (Inr t1, w1) \<Rightarrow>
     (case stats_block api t1 w1 of
        (Inl e, w2) \<Rightarrow> (Inl e, w2)
      | (Inr t2, w2) \<Rightarrow> roster_block api t2 w2)))"

text \<open>The property \<open>goalie_pulled\<close> (lines 265 to 268) reads \<open>_goalie_pulled\<close>.\<close>

definition goalie_pulled :: "team \<Rightarrow> pyval" where
  "goalie_pulled t = private_goalie_pulled t"

text \<open>
  \<open>goalie_pulled_setter\<close> (lines 277 to 281) gives the returned bool and the object after
  the assignment. \<open>x is True\<close> holds for the one object \<open>True\<close> only, not for a truthy
  value such as \<open>1\<close>.
\<close>

definition py_is :: "pyval \<Rightarrow> bool \<Rightarrow> bool" where
  "py_is v b = (v = PyBool b)"

definition goalie_pulled_setter :: "team \<Rightarrow> pyval \<Rightarrow> bool \<times> team" where
  "goalie_pulled_setter t new_value =
     (let old_value = goalie_pulled t;
          t' = t\<lparr>private_goalie_pulled := new_value\<rparr>
      in (py_is new_value True \<and> py_is old_value False, t'))"

section \<open>app.py: the state of the process\<close>

text \<open>
  The four values the loop tells apart when it evaluates \<open>GameState(game.game_state)\<close>.
\<close>

datatype phase = PREVIEW | LIVE | FINAL | UNKNOWN

text \<open>
  Modelled from the spec: the enumeration \<open>GameState\<close> (hockeygamebot/models/gamestate.py)
  is not among the sources. The spec's classifier maps every value the feed can report to
  one of the four phases, defaulting to Unknown for any unrecognized tag, and never
  raises. The constructor call is given the result type of a call that could raise; the
  three known tags are the feed's \<open>Preview\<close>, \<open>Live\<close> and \<open>Final\<close>.
\<close>

definition GameState :: "pyval \<Rightarrow> exn + phase" where
  "GameState tag =
     Inr (if tag = PyStr ''Preview'' then PREVIEW
          else if tag = PyStr ''Live'' then LIVE
          else if tag = PyStr ''Final'' then FINAL
          else UNKNOWN)"

text \<open>
  \<open>game.final_socials\<close>: the loop reads \<open>all_social_sent\<close>, \<open>retries_exeeded\<close> and
  \<open>retry_count\<close>, and writes \<open>retry_count\<close>.
\<close>

record final_socials =
  all_social_sent :: bool
  retry_count :: int
  max_retries :: int

text \<open>
  Modelled from the spec: the class of \<open>final_socials\<close> is not among the sources. The
  spec's ledger holds a retry counter and a maximum-retries threshold, and the Final phase
  ends when retries \<open>\<ge>\<close> max.
\<close>

definition retries_exeeded :: "final_socials \<Rightarrow> bool" where
  "retries_exeeded fs = (max_retries fs \<le> retry_count fs)"

text \<open>The attributes of \<open>Game\<close> that app.py reads or writes.\<close>

record game =
  game_id :: pyval
  game_state :: pyval
  game_time_countdown :: int
  pregametweets :: "(string \<times> bool) list"
  last_event_idx :: int
  final_socials :: final_socials
  preferred_team :: team
  other_team :: team

text \<open>\<open>config["script"]\<close>: the three sleep times, non-negative numbers of seconds.\<close>

record config =
  pregame_sleep_time :: nat
  live_sleep_time :: nat
  final_sleep_time :: nat

text \<open>
  What a run does outside the \<open>Game\<close> object is written to a trace: each logging call,
  each sleep, and each call of a function of the other modules with the game as that
  call left it (\<open>Called\<close> when it returned, \<open>Failed\<close> when it raised).
\<close>

datatype call =
    Generate_game_preview
  | Game_preview_others
  | Get_livefeed
  | Update_game
  | Live_loop
  | Final_score
  | Three_stars
  | Nst_linetool

datatype level = INFO | WARNING | ERROR

datatype event =
    Logged level
  | Slept nat
  | Called call game
  | Failed call exn game

record 'w state =
  game :: game
  world :: 'w
  trace :: "event list"

text \<open>
  A piece of code returns a value, raises an exception (a subclass of \<open>Exception\<close>), or
  ends the process through \<open>sys.exit\<close>; each with the state it leaves.
\<close>

datatype ('a, 's) outcome = Normal 'a 's | Raise exn 's | Exit int 's

definition and_then :: "('a, 's) outcome \<Rightarrow> ('a \<Rightarrow> 's \<Rightarrow> ('b, 's) outcome) \<Rightarrow> ('b, 's) outcome" where
  "and_then m f = (case m of Normal v s \<Rightarrow> f v s | Raise e s \<Rightarrow> Raise e s | Exit k s \<Rightarrow> Exit k s)"

text \<open>\<open>try: m except Exception as error: h\<close>. \<open>SystemExit\<close> is not an \<open>Exception\<close>.\<close>

definition try_except :: "('a, 's) outcome \<Rightarrow> (exn \<Rightarrow> 's \<Rightarrow> ('a, 's) outcome) \<Rightarrow> ('a, 's) outcome" where
  "try_except m h = (case m of Normal v s \<Rightarrow> Normal v s | Raise e s \<Rightarrow> h e s | Exit k s \<Rightarrow> Exit k s)"

text \<open>\<open>sys.exit(arg)\<close>: no argument is exit status 0.\<close>

definition sys_exit :: "int option \<Rightarrow> 's \<Rightarrow> ('a, 's) outcome" where
  "sys_exit arg s = Exit (case arg of None \<Rightarrow> 0 | Some k \<Rightarrow> k) s"

definition logging :: "level \<Rightarrow> 'w state \<Rightarrow> (unit, 'w state) outcome" where
  "logging lv s = Normal () (s\<lparr>trace := trace s @ [Logged lv]\<rparr>)"

definition time_sleep :: "nat \<Rightarrow> 'w state \<Rightarrow> (unit, 'w state) outcome" where
  "time_sleep secs s = Normal () (s\<lparr>trace := trace s @ [Slept secs]\<rparr>)"

text \<open>
  The functions of the modules that are not among the sources (\<open>preview\<close>, \<open>live\<close>,
  \<open>final\<close>, \<open>livefeed\<close>, \<open>thirdparty\<close>, and the method \<open>Game.update_game\<close>) are
  parameters. Each is given the \<open>Game\<close> object it is passed and the world outside the
  process \<open>'w\<close> (the feed, the clock, the publishing accounts), and gives its result or
  the exception it raised, with the game and the world as it left them: what a call
  changed before it raised stays changed. \<open>get_livefeed\<close> is passed \<open>game.game_id\<close>
  only, so it cannot change the game.
\<close>

record 'w collab =
  generate_game_preview :: "game \<Rightarrow> 'w \<Rightarrow> (exn + unit) \<times> game \<times> 'w"
  game_preview_others :: "game \<Rightarrow> 'w \<Rightarrow> (exn + nat) \<times> game \<times> 'w"
  get_livefeed :: "pyval \<Rightarrow> 'w \<Rightarrow> (exn + pyval) \<times> 'w"
  update_game :: "pyval \<Rightarrow> game \<Rightarrow> 'w \<Rightarrow> (exn + unit) \<times> game \<times> 'w"
  live_loop :: "pyval \<Rightarrow> game \<Rightarrow> 'w \<Rightarrow> (exn + unit) \<times> game \<times> 'w"
  final_score :: "pyval \<Rightarrow> game \<Rightarrow> 'w \<Rightarrow> (exn + unit) \<times> game \<times> 'w"
  three_stars :: "pyval \<Rightarrow> game \<Rightarrow> 'w \<Rightarrow> (exn + unit) \<times> game \<times> 'w"
  nst_linetool :: "game \<Rightarrow> team \<Rightarrow> 'w \<Rightarrow> (exn + unit) \<times> game \<times> 'w"

definition invoke ::
  "call \<Rightarrow> (game \<Rightarrow> 'w \<Rightarrow> (exn + 'a) \<times> game \<times> 'w) \<Rightarrow> 'w state \<Rightarrow> ('a, 'w state) outcome" where
  "invoke nm f s =
     (case f (game s) (world s) of
        (Inr v, g', w') \<Rightarrow>
          Normal v (s\<lparr>game := g', world := w', trace := trace s @ [Called nm g']\<rparr>)
      | (Inl e, g', w') \<Rightarrow>
          Raise e (s\<lparr>game := g', world := w', trace := trace s @ [Failed nm e g']\<rparr>))"

text \<open>\<open>livefeed.get_livefeed(game.game_id)\<close>.\<close>

definition fetch :: "'w collab \<Rightarrow> game \<Rightarrow> 'w \<Rightarrow> (exn + pyval) \<times> game \<times> 'w" where
  "fetch c g w = (case get_livefeed c (game_id g) w of (r, w') \<Rightarrow> (r, g, w'))"

section \<open>app.py: the game loop\<close>

text \<open>Lines 119 to 136: five log lines, then \<open>sys.exit()\<close>.\<close>

definition end_game_loop :: "'w state \<Rightarrow> (unit, 'w state) outcome" where
  "end_game_loop s =
     and_then (logging INFO s) (\<lambda>_ s.
     and_then (logging INFO s) (\<lambda>_ s.
     and_then (logging INFO s) (\<lambda>_ s.
     and_then (logging INFO s) (\<lambda>_ s.
     and_then (logging INFO s) (\<lambda>_ s.
     sys_exit None s)))))"

text \<open>Lines 45 to 62, the branch of \<open>GameState.PREVIEW\<close>.\<close>

definition core_preview :: "'w collab \<Rightarrow> 'w state \<Rightarrow> (unit, 'w state) outcome" where
  "core_preview c s =
     (case map_of (pregametweets (game s)) ''core'' of
        None \<Rightarrow> Raise KeyError s
      | Some core \<Rightarrow>
          if \<not> core then invoke Generate_game_preview (generate_game_preview c) s
          else Normal () s)"

definition preview_branch :: "config \<Rightarrow> 'w collab \<Rightarrow> 'w state \<Rightarrow> (unit, 'w state) outcome" where
  "preview_branch cfg c s =
     (if game_time_countdown (game s) > 0 then
        and_then (logging INFO s) (\<lambda>_ s.
        and_then (core_preview c s) (\<lambda>_ s.
        and_then (invoke Game_preview_others (game_preview_others c) s) (\<lambda>sleep_time s.
        time_sleep sleep_time s)))
      else
        and_then (logging INFO s) (\<lambda>_ s.
        and_then (invoke Get_livefeed (fetch c) s) (\<lambda>livefeed_resp s.
        and_then (invoke Update_game (update_game c livefeed_resp) s) (\<lambda>_ s.
        time_sleep (pregame_sleep_time cfg) s))))"

text \<open>Lines 65 to 83, the branch of \<open>GameState.LIVE\<close>: the body of the \<open>try\<close>, its handler, the sleep.\<close>

definition live_try :: "'w collab \<Rightarrow> 'w state \<Rightarrow> (unit, 'w state) outcome" where
  "live_try c s =
     and_then (logging INFO s) (\<lambda>_ s.
     and_then (logging INFO s) (\<lambda>_ s.
     and_then (invoke Get_livefeed (fetch c) s) (\<lambda>livefeed_resp s.
     and_then (invoke Live_loop (live_loop c livefeed_resp) s) (\<lambda>_ s.
     and_then (invoke Update_game (update_game c livefeed_resp) s) (\<lambda>_ s.
     logging INFO s)))))"

definition live_except :: "exn \<Rightarrow> 'w state \<Rightarrow> (unit, 'w state) outcome" where
  "live_except error s =
     and_then (logging ERROR s) (\<lambda>_ s.
     logging ERROR s)"

definition live_branch :: "config \<Rightarrow> 'w collab \<Rightarrow> 'w state \<Rightarrow> (unit, 'w state) outcome" where
  "live_branch cfg c s =
     and_then (try_except (live_try c s) live_except) (\<lambda>_ s.
     time_sleep (live_sleep_time cfg) s)"

text \<open>Lines 86 to 110, the branch of \<open>GameState.FINAL\<close>.\<close>

definition final_dispatch :: "'w collab \<Rightarrow> 'w state \<Rightarrow> (unit, 'w state) outcome" where
  "final_dispatch c s =
     and_then (logging INFO s) (\<lambda>_ s.
     and_then (invoke Get_livefeed (fetch c) s) (\<lambda>livefeed_resp s.
     and_then (invoke Update_game (update_game c livefeed_resp) s) (\<lambda>_ s.
     and_then (invoke Final_score (final_score c livefeed_resp) s) (\<lambda>_ s.
     and_then (invoke Three_stars (three_stars c livefeed_resp) s) (\<lambda>_ s.
     invoke Nst_linetool (\<lambda>g. nst_linetool c g (preferred_team g)) s)))))"

definition final_check :: "'w state \<Rightarrow> (unit, 'w state) outcome" where
  "final_check s =
     (if all_social_sent (final_socials (game s)) \<or> retries_exeeded (final_socials (game s))
      then and_then (logging INFO s) (\<lambda>_ s. end_game_loop s)
      else Normal () s)"

definition count_retry :: "'w state \<Rightarrow> (unit, 'w state) outcome" where
  "count_retry s =
     Normal () (s\<lparr>game := (game s)\<lparr>final_socials :=
        (final_socials (game s))\<lparr>retry_count := retry_count (final_socials (game s)) + 1\<rparr>\<rparr>\<rparr>)"

definition final_branch :: "config \<Rightarrow> 'w collab \<Rightarrow> 'w state \<Rightarrow> (unit, 'w state) outcome" where
  "final_branch cfg c s =
     and_then (final_dispatch c s) (\<lambda>_ s.
     and_then (final_check s) (\<lambda>_ s.
     and_then (logging INFO s) (\<lambda>_ s.
     and_then (count_retry s) (\<lambda>_ s.
     time_sleep (final_sleep_time cfg) s))))"

text \<open>Lines 113 to 116, the \<open>else\<close> branch.\<close>

definition unknown_branch :: "config \<Rightarrow> 'w state \<Rightarrow> (unit, 'w state) outcome" where
  "unknown_branch cfg s =
     and_then (logging WARNING s) (\<lambda>_ s.
     time_sleep (live_sleep_time cfg) s)"

text \<open>One pass through the body of \<open>while True\<close> (lines 44 to 116).\<close>

definition loop_body :: "config \<Rightarrow> 'w collab \<Rightarrow> 'w state \<Rightarrow> (unit, 'w state) outcome" where
  "loop_body cfg c s =
     (case GameState (game_state (game s)) of
        Inl e \<Rightarrow> Raise e s
      | Inr PREVIEW \<Rightarrow> preview_branch cfg c s
      | Inr LIVE \<Rightarrow> live_branch cfg c s
      | Inr FINAL \<Rightarrow> final_branch cfg c s
      | Inr UNKNOWN \<Rightarrow> unknown_branch cfg s)"

text \<open>
  \<open>start_game_loop\<close>: the loop has no exit of its own, so it is run for a number of
  passes. \<open>Normal\<close> says that the loop has made that many passes and is about to start
  the next; \<open>Raise\<close> and \<open>Exit\<close> say how it stopped before.
\<close>

fun start_game_loop :: "nat \<Rightarrow> config \<Rightarrow> 'w collab \<Rightarrow> 'w state \<Rightarrow> (unit, 'w state) outcome" where
  "start_game_loop 0 cfg c s = Normal () s"
| "start_game_loop (Suc n) cfg c s =
     and_then (loop_body cfg c s) (\<lambda>_ s'. start_game_loop n cfg c s')"

text \<open>
  \<open>run\<close>, lines 141 to 214. \<open>startup\<close> is lines 141 to 181 (configuration, arguments,
  logging, the date and \<open>schedule.is_game_today\<close>) and gives \<open>game_today\<close> and
  \<open>game_info\<close>; \<open>build_game\<close> is lines 186 to 214, which make the teams and the game.
\<close>

record 'w run_env =
  startup :: "'w \<Rightarrow> (exn + bool \<times> pyval) \<times> 'w"
  build_game :: "pyval \<Rightarrow> 'w \<Rightarrow> (exn + game) \<times> 'w"

definition run :: "'w run_env \<Rightarrow> 'w \<Rightarrow> (game, 'w) outcome" where
  "run env w =
     (case startup env w of
        (Inl e, w1) \<Rightarrow> Raise e w1
      | (Inr (game_today, game_info), w1) \<Rightarrow>
          if \<not> game_today then sys_exit None w1
          else (case build_game env game_info w1 of
                  (Inl e, w2) \<Rightarrow> Raise e w2
                | (Inr g, w2) \<Rightarrow> Normal g w2))"

text \<open>
  Lines 217 to 222: how the process ends. An exception that nothing catches ends it with
  a traceback; \<open>Still_running\<close> says that the loop was still running after the given
  number of passes.
\<close>

datatype process_end = Exit_status int | Uncaught exn | Still_running

definition main :: "nat \<Rightarrow> config \<Rightarrow> 'w run_env \<Rightarrow> 'w collab \<Rightarrow> 'w \<Rightarrow> process_end" where
  "main n cfg env c w =
     (case run env w of
        Exit k w' \<Rightarrow> Exit_status k
      | Raise e w' \<Rightarrow> Uncaught e
      | Normal g w' \<Rightarrow>
          (case start_game_loop n cfg c \<lparr>game = g, world = w', trace = []\<rparr> of
             Exit k s \<Rightarrow> Exit_status k
           | Raise e s \<Rightarrow> Uncaught e
           | Normal u s \<Rightarrow> Still_running))"

section \<open>Observations on a run\<close>

text \<open>The state in which a piece of code stopped, however it stopped.\<close>

fun final_state :: "('a, 's) outcome \<Rightarrow> 's" where
  "final_state (Normal v s) = s"
| "final_state (Raise e s) = s"
| "final_state (Exit k s) = s"

text \<open>The calls of one function in a trace, returned or raised.\<close>

fun is_call :: "call \<Rightarrow> event \<Rightarrow> bool" where
  "is_call nm (Called nm' g) = (nm' = nm)"
| "is_call nm (Failed nm' e g) = (nm' = nm)"
| "is_call nm (Logged lv) = False"
| "is_call nm (Slept secs) = False"

definition calls_of :: "call \<Rightarrow> event list \<Rightarrow> nat" where
  "calls_of nm tr = length (filter (is_call nm) tr)"

text \<open>
  The ledger flag \<open>pregametweets["core"]\<close> is set. The core pregame notification is
  emitted by a call of \<open>generate_game_preview\<close> that returns with the flag set.
\<close>

definition core_sent :: "game \<Rightarrow> bool" where
  "core_sent g = (map_of (pregametweets g) ''core'' = Some True)"

fun core_emitted :: "event \<Rightarrow> bool" where
  "core_emitted (Called nm g) = (nm = Generate_game_preview \<and> core_sent g)"
| "core_emitted (Failed nm e g) = False"
| "core_emitted (Logged lv) = False"
| "core_emitted (Slept secs) = False"

text \<open>
  The invariant of a run for the core pregame notification: it has been emitted at most
  once, and not at all while the flag is not set.
\<close>

definition at_most_once :: "'w state \<Rightarrow> bool" where
  "at_most_once s =
     (length (filter core_emitted (trace s)) \<le> (if core_sent (game s) then 1 else 0))"

text \<open>What is assumed of the functions of the other modules in some of the properties.\<close>

definition after :: "'r \<times> game \<times> 'w \<Rightarrow> game" where
  "after r = fst (snd r)"

definition returns :: "(exn + 'a) \<times> 'r \<Rightarrow> bool" where
  "returns r = (case fst r of Inl e \<Rightarrow> False | Inr v \<Rightarrow> True)"

text \<open>
  \<open>stable c P\<close>: once \<open>P\<close> holds of the game, it holds after every call of a function
  that is passed the game, also after a call that raises.
\<close>

definition stable :: "'w collab \<Rightarrow> (game \<Rightarrow> bool) \<Rightarrow> bool" where
  "stable c P =
     (\<forall>g w resp tm. P g \<longrightarrow>
        P (after (generate_game_preview c g w)) \<and>
        P (after (game_preview_others c g w)) \<and>
        P (after (update_game c resp g w)) \<and>
        P (after (live_loop c resp g w)) \<and>
        P (after (final_score c resp g w)) \<and>
        P (after (three_stars c resp g w)) \<and>
        P (after (nst_linetool c g tm w)))"

text \<open>
  No call of the Final branch raises: the feed answers, and a dispatcher that fails to
  publish returns without an exception.
\<close>

definition final_calls_return :: "'w collab \<Rightarrow> bool" where
  "final_calls_return c =
     (\<forall>g w resp tm gid.
        returns (get_livefeed c gid w) \<and>
        returns (update_game c resp g w) \<and>
        returns (final_score c resp g w) \<and>
        returns (three_stars c resp g w) \<and>
        returns (nst_linetool c g tm w))"

text \<open>
  The calls that one pass of the Final branch makes before its test: the fetch, the
  update and the three dispatchers. \<open>final_rounds secs tr tr' k j\<close>: from the trace \<open>tr\<close> to
  the trace \<open>tr'\<close> each of these calls was made \<open>k\<close> times, and the sleep of \<open>secs\<close>
  seconds \<open>j\<close> times.
\<close>

definition final_phase_calls :: "call set" where
  "final_phase_calls = {Get_livefeed, Update_game, Final_score, Three_stars, Nst_linetool}"

definition final_rounds :: "nat \<Rightarrow> event list \<Rightarrow> event list \<Rightarrow> nat \<Rightarrow> nat \<Rightarrow> bool" where
  "final_rounds secs tr tr' k j =
     ((\<forall>nm \<in> final_phase_calls. calls_of nm tr' = calls_of nm tr + k) \<and>
      count_list tr' (Slept secs) = count_list tr (Slept secs) + j)"

section \<open>Sample objects\<close>

definition sample_team :: "string \<Rightarrow> team" where
  "sample_team name =
     \<lparr> team_id = PyInt 6, team_name = PyStr name, short_name = PyStr name,
       tri_code = PyStr (take 3 name), home_away = PyStr ''home'', tv_channel = PyStr ''N/A'',
       games = PyInt 4,
       record_attr = PyDict [(''wins'', PyInt 3), (''losses'', PyInt 1), (''ot'', PyInt 0)],
       season = PyStr ''20192020'',
       skaters = PyInt 5, score = PyInt 0, shots = PyInt 0,
       power_play = PyBool False, private_goalie_pulled = PyBool False,
       preferred = PyBool False, goals = PyList [], lines = PyDict [],
       overridelines = PyBool False, nss_gamelog = PyNone, gameday_roster = PyDict [],
       wins = PyInt 3, losses = PyInt 1, ot = PyInt 0, points = PyInt 6,
       lead_trail_lead1P = PyStr ''N/A-N/A-N/A'', lead_trail_lead2P = PyStr ''N/A-N/A-N/A'',
       lead_trail_trail1P = PyStr ''N/A-N/A-N/A'', lead_trail_trail2P = PyStr ''N/A-N/A-N/A'',
       team_stats = PyStr ''N/A'', rank_stats = PyStr ''N/A'', roster = PyStr ''N/A'' \<rparr>"

text \<open>A game with the given state tag, countdown and ledger of the Final phase.\<close>

definition sample_game :: "string \<Rightarrow> int \<Rightarrow> final_socials \<Rightarrow> game" where
  "sample_game tag countdown fs =
     \<lparr> game_id = PyInt 2019020001, game_state = PyStr tag, game_time_countdown = countdown,
       pregametweets = [(''core'', False)], last_event_idx = 0, final_socials = fs,
       preferred_team = sample_team ''Bruins'', other_team = sample_team ''Canadiens'' \<rparr>"

definition unsent :: final_socials where
  "unsent = \<lparr>all_social_sent = False, retry_count = 0, max_retries = 5\<rparr>"

definition sample_config :: config where
  "sample_config = \<lparr>pregame_sleep_time = 30, live_sleep_time = 60, final_sleep_time = 120\<rparr>"

text \<open>
  Functions of the other modules that return and change nothing: the feed answers with
  an empty document and every publication fails without an exception.
\<close>

definition idle :: "nat collab" where
  "idle =
     \<lparr> generate_game_preview = (\<lambda>g w. (Inr (), g, w)),
       game_preview_others = (\<lambda>g w. (Inr 900, g, w)),
       get_livefeed = (\<lambda>gid w. (Inr (PyDict []), w)),
       update_game = (\<lambda>resp g w. (Inr (), g, w)),
       live_loop = (\<lambda>resp g w. (Inr (), g, w)),
       final_score = (\<lambda>resp g w. (Inr (), g, w)),
       three_stars = (\<lambda>resp g w. (Inr (), g, w)),
       nst_linetool = (\<lambda>g tm w. (Inr (), g, w)) \<rparr>"

text \<open>The feed is down: \<open>get_livefeed\<close> raises.\<close>

definition feed_down :: "nat collab" where
  "feed_down = idle\<lparr>get_livefeed := (\<lambda>gid w. (Inl FeedUnavailable, w))\<rparr>"

text \<open>
  \<open>update_game\<close> stores the feed's event index 7 and then raises on a key that the
  response lacks.
\<close>

definition half_update :: "nat collab" where
  "half_update =
     idle\<lparr>update_game := (\<lambda>resp g w. (Inl KeyError, g\<lparr>last_event_idx := 7\<rparr>, w))\<rparr>"

text \<open>\<open>generate_game_preview\<close> publishes and sets the flag.\<close>

definition publishing :: "nat collab" where
  "publishing =
     idle\<lparr>generate_game_preview :=
       (\<lambda>g w. (Inr (), g\<lparr>pregametweets := (''core'', True) # pregametweets g\<rparr>, w))\<rparr>"

definition no_game_today :: "nat run_env" where
  "no_game_today =
     \<lparr> startup = (\<lambda>w. (Inr (False, PyNone), w)),
       build_game = (\<lambda>info w. (Inl KeyError, w)) \<rparr>"

text \<open>A game is scheduled, it is over, and every final notification has been sent.\<close>

definition final_game_today :: "nat run_env" where
  "final_game_today =
     \<lparr> startup = (\<lambda>w. (Inr (True, PyNone), w)),
       build_game =
         (\<lambda>info w. (Inr (sample_game ''Final'' 0 (unsent\<lparr>all_social_sent := True\<rparr>)), w)) \<rparr>"

section \<open>Properties of models/team.py\<close>

lemma py_add_None: "py_add v PyNone = Inl TypeError"
  by (cases v) (simp_all add: py_add_def)

lemma py_int_mul_Inl: "py_int_mul n v = Inl e \<Longrightarrow> e = TypeError"
  by (cases v) simp_all

lemma Team_init_fields_no_ot:
  assumes "map_of d ''ot'' = None"
  shows "Team_init_fields a b c e f g h (PyDict d) i \<noteq> Inr t"
proof -
  have ot: "read_ot (PyDict d) = Inr PyNone"
    using assms by (simp add: read_ot_def)
  show ?thesis
    unfolding Team_init_fields_def ot
    by (auto split: sum.splits simp: py_add_None)
qed

text \<open>
  C9. A record dictionary with \<open>wins\<close> and \<open>losses\<close> and no \<open>ot\<close>: the handler sets \<open>ot\<close>
  to \<open>None\<close>, and the constructor raises \<open>TypeError\<close> at \<open>points = (2 * wins) + ot\<close>,
  before any request is sent. So no record dictionary without \<open>ot\<close> gives a Team.
\<close>

theorem Team_init_without_ot:
  assumes "map_of d ''wins'' = Some x" and "map_of d ''losses'' = Some y"
    and "map_of d ''ot'' = None"
  shows "read_ot (PyDict d) = Inr PyNone
    \<and> Team_init api a b c e f g h (PyDict d) i w = (Inl TypeError, w)
    \<and> (\<forall>d' t. map_of d' ''ot'' = None
          \<longrightarrow> fst (Team_init api a b c e f g h (PyDict d') i w) \<noteq> Inr t)"
proof -
  have ot: "read_ot (PyDict d) = Inr PyNone"
    using assms(3) by (simp add: read_ot_def)
  have "Team_init_fields a b c e f g h (PyDict d) i = Inl TypeError"
    unfolding Team_init_fields_def ot using assms(1,2)
    by (auto split: sum.splits simp: py_add_None dest: py_int_mul_Inl)
  then have raise: "Team_init api a b c e f g h (PyDict d) i w = (Inl TypeError, w)"
    by (simp add: Team_init_def)
  have "fst (Team_init api a b c e f g h (PyDict d') i w) \<noteq> Inr t"
    if "map_of d' ''ot'' = None" for d' t
  proof (cases "Team_init_fields a b c e f g h (PyDict d') i")
    case (Inl err)
    then show ?thesis by (simp add: Team_init_def)
  next
    case (Inr t0)
    with Team_init_fields_no_ot [OF that] show ?thesis by blast
  qed
  with ot raise show ?thesis by blast
qed

theorem Team_init_without_ot_witness:
  "Team_init
     \<lparr>lead_trail_request = (\<lambda>t w. (Inl KeyError, w)),
      stats_request = (\<lambda>t w. (Inl KeyError, w)),
      roster_request = (\<lambda>t w. (Inl KeyError, w))\<rparr>
     (PyInt 6) (PyStr ''Boston Bruins'') (PyStr ''Bruins'') (PyStr ''BOS'') (PyStr ''home'')
     (PyStr ''NESN'') (PyInt 4) (PyDict [(''wins'', PyInt 3), (''losses'', PyInt 1)])
     (PyStr ''20192020'') (0::nat)
   = (Inl TypeError, 0)"
proof -
  let ?d = "[(''wins'', PyInt 3), (''losses'', PyInt 1)]"
  have w: "map_of ?d ''wins'' = Some (PyInt 3)" by simp
  have l: "map_of ?d ''losses'' = Some (PyInt 1)" by simp
  have o: "map_of ?d ''ot'' = None" by simp
  show ?thesis
    by (rule Team_init_without_ot [OF w l o, THEN conjunct2, THEN conjunct1])
qed

text \<open>
  C10. \<open>goalie_pulled_setter\<close> stores the new value, returns \<open>True\<close> exactly when the new
  value is \<open>True\<close> and the old one was \<open>False\<close>, and changes no other field: putting the
  old value back gives the old object.
\<close>

theorem goalie_pulled_setter_result:
  "goalie_pulled (snd (goalie_pulled_setter t v)) = v
   \<and> fst (goalie_pulled_setter t v) = (v = PyBool True \<and> goalie_pulled t = PyBool False)
   \<and> snd (goalie_pulled_setter t v) = t\<lparr>private_goalie_pulled := v\<rparr>
   \<and> (snd (goalie_pulled_setter t v))\<lparr>private_goalie_pulled := goalie_pulled t\<rparr> = t"
  by (simp add: goalie_pulled_setter_def goalie_pulled_def py_is_def)

section \<open>Properties of app.py\<close>

subsection \<open>Sequencing and calls\<close>

lemma and_then_simps [simp]:
  "and_then (Normal v s) f = f v s"
  "and_then (Raise e s) f = Raise e s"
  "and_then (Exit k s) f = Exit k s"
  by (simp_all add: and_then_def)

lemma try_except_simps [simp]:
  "try_except (Normal v s) h = Normal v s"
  "try_except (Raise e s) h = h e s"
  "try_except (Exit k s) h = Exit k s"
  by (simp_all add: try_except_def)

lemma invoke_Inr:
  "f (game s) (world s) = (Inr v, g', w') \<Longrightarrow>
   invoke nm f s = Normal v (s\<lparr>game := g', world := w', trace := trace s @ [Called nm g']\<rparr>)"
  by (simp add: invoke_def)

lemma invoke_Inl:
  "f (game s) (world s) = (Inl e, g', w') \<Longrightarrow>
   invoke nm f s = Raise e (s\<lparr>game := g', world := w', trace := trace s @ [Failed nm e g']\<rparr>)"
  by (simp add: invoke_def)

lemma sample_game_simps [simp]:
  "game_state (sample_game tag n fs) = PyStr tag"
  "game_time_countdown (sample_game tag n fs) = n"
  "final_socials (sample_game tag n fs) = fs"
  "pregametweets (sample_game tag n fs) = [(''core'', False)]"
  "last_event_idx (sample_game tag n fs) = 0"
  "game_id (sample_game tag n fs) = PyInt 2019020001"
  by (simp_all add: sample_game_def)

subsection \<open>The Unknown branch and the classification\<close>

text \<open>
  C7. A pass in which the state tag classifies to Unknown calls no function of the other
  modules and leaves the game (ledger, snapshot, last event index) and the world as they
  were: it logs one warning and sleeps for \<open>live_sleep_time\<close>.
\<close>

theorem unknown_iteration:
  assumes "GameState (game_state (game s)) = Inr UNKNOWN"
  shows "loop_body cfg c s =
     Normal () (s\<lparr>trace := trace s @ [Logged WARNING, Slept (live_sleep_time cfg)]\<rparr>)"
  using assms by (simp add: loop_body_def unknown_branch_def logging_def time_sleep_def)

theorem unknown_iteration_witness:
  "loop_body sample_config idle \<lparr>game = sample_game ''Postponed'' 0 unsent, world = 0, trace = []\<rparr>
   = Normal () \<lparr>game = sample_game ''Postponed'' 0 unsent, world = 0,
        trace = [Logged WARNING, Slept 60]\<rparr>"
  using unknown_iteration [of "\<lparr>game = sample_game ''Postponed'' 0 unsent, world = 0::nat, trace = []\<rparr>" sample_config idle]
  by (simp add: GameState_def sample_config_def)

text \<open>
  C2. The classification is total and never raises: every tag gives one of the four
  phases, and every tag other than the three known ones gives Unknown.
\<close>

theorem GameState_total:
  "(\<exists>p. GameState tag = Inr p \<and> p \<in> {PREVIEW, LIVE, FINAL, UNKNOWN})
   \<and> (\<forall>e. GameState tag \<noteq> Inl e)
   \<and> (tag \<notin> {PyStr ''Preview'', PyStr ''Live'', PyStr ''Final''} \<longrightarrow> GameState tag = Inr UNKNOWN)"
  by (simp add: GameState_def)

theorem GameState_total_witness:
  "PyStr ''Postponed'' \<notin> {PyStr ''Preview'', PyStr ''Live'', PyStr ''Final''}
   \<and> GameState (PyStr ''Postponed'') = Inr UNKNOWN \<and> GameState (PyInt 3) = Inr UNKNOWN"
  using GameState_total [of "PyStr ''Postponed''"] GameState_total [of "PyInt 3"]
  by simp

subsection \<open>A fetch that fails outside the Live branch\<close>

text \<open>
  C1. The feed is down in the Final phase, and in the Preview phase past the start time:
  the exception of \<open>get_livefeed\<close> leaves the loop body and \<open>start_game_loop\<close>. Only the
  Live branch has a handler. No sleep follows and no further pass is made.
\<close>

theorem fetch_failure_leaves_loop:
  "loop_body sample_config feed_down
      \<lparr>game = sample_game ''Final'' 0 unsent, world = 0, trace = []\<rparr>
    = Raise FeedUnavailable
      \<lparr>game = sample_game ''Final'' 0 unsent, world = 0,
        trace = [Logged INFO, Failed Get_livefeed FeedUnavailable (sample_game ''Final'' 0 unsent)]\<rparr>
   \<and> loop_body sample_config feed_down
      \<lparr>game = sample_game ''Preview'' 0 unsent, world = 0, trace = []\<rparr>
    = Raise FeedUnavailable
      \<lparr>game = sample_game ''Preview'' 0 unsent, world = 0,
        trace = [Logged INFO, Failed Get_livefeed FeedUnavailable (sample_game ''Preview'' 0 unsent)]\<rparr>
   \<and> start_game_loop (Suc n) sample_config feed_down
      \<lparr>game = sample_game ''Final'' 0 unsent, world = 0, trace = []\<rparr>
    = Raise FeedUnavailable
      \<lparr>game = sample_game ''Final'' 0 unsent, world = 0,
        trace = [Logged INFO, Failed Get_livefeed FeedUnavailable (sample_game ''Final'' 0 unsent)]\<rparr>"
  by (simp add: loop_body_def GameState_def final_branch_def final_dispatch_def preview_branch_def
      logging_def invoke_def fetch_def feed_down_def idle_def)


subsection \<open>The exit of the Final branch\<close>

lemma end_game_loop_eq:
  "end_game_loop s = Exit 0 (s\<lparr>trace := trace s @ replicate 5 (Logged INFO)\<rparr>)"
  by (simp add: end_game_loop_def logging_def sys_exit_def numeral_eq_Suc)

lemma final_check_eq:
  "final_check s =
     (if all_social_sent (final_socials (game s)) \<or> retries_exeeded (final_socials (game s))
      then Exit 0 (s\<lparr>trace := trace s @ replicate 6 (Logged INFO)\<rparr>)
      else Normal () s)"
  by (simp add: final_check_def end_game_loop_eq logging_def numeral_eq_Suc)

lemma final_branch_eq:
  "final_branch cfg c s =
     and_then (final_dispatch c s) (\<lambda>_ s1.
       if all_social_sent (final_socials (game s1)) \<or> retries_exeeded (final_socials (game s1))
       then Exit 0 (s1\<lparr>trace := trace s1 @ replicate 6 (Logged INFO)\<rparr>)
       else Normal () (s1\<lparr>game := (game s1)\<lparr>final_socials :=
              (final_socials (game s1))\<lparr>retry_count := retry_count (final_socials (game s1)) + 1\<rparr>\<rparr>,
            trace := trace s1 @ [Logged INFO, Slept (final_sleep_time cfg)]\<rparr>))"
  unfolding final_branch_def final_check_eq
  by (cases "final_dispatch c s")
     (simp_all add: logging_def count_retry_def time_sleep_def)

lemma invoke_cases:
  obtains (returned) v g' w' where "f (game s) (world s) = (Inr v, g', w')"
      "invoke nm f s = Normal v (s\<lparr>game := g', world := w', trace := trace s @ [Called nm g']\<rparr>)"
  | (raised) e g' w' where "f (game s) (world s) = (Inl e, g', w')"
      "invoke nm f s = Raise e (s\<lparr>game := g', world := w', trace := trace s @ [Failed nm e g']\<rparr>)"
proof (cases "f (game s) (world s)")
  case (fields r g' w')
  show ?thesis
  proof (cases r)
    case (Inl e)
    with fields raised invoke_Inl show ?thesis by metis
  next
    case (Inr v)
    with fields returned invoke_Inr show ?thesis by metis
  qed
qed

lemma invoke_not_Exit: "invoke nm f s \<noteq> Exit k s'"
  by (cases rule: invoke_cases [of f s nm]) simp_all

lemma and_then_Exit:
  "and_then m f = Exit k s' \<Longrightarrow> m = Exit k s' \<or> (\<exists>v s1. m = Normal v s1 \<and> f v s1 = Exit k s')"
  by (cases m) simp_all

lemma final_dispatch_trace:
  assumes "final_dispatch c s = Normal u s1"
  shows "\<exists>g1 g2 g3. trace s1 = trace s @
      [Logged INFO, Called Get_livefeed (game s), Called Update_game g1,
       Called Final_score g2, Called Three_stars g3, Called Nst_linetool (game s1)]"
  using assms unfolding final_dispatch_def logging_def invoke_def fetch_def
  by (auto split: prod.splits sum.splits)


lemma preview_branch_not_Exit: "preview_branch cfg c s \<noteq> Exit k s'"
  unfolding preview_branch_def core_preview_def logging_def time_sleep_def invoke_def
  by (auto split: prod.splits sum.splits option.splits)

lemma live_branch_Normal: "\<exists>s'. live_branch cfg c s = Normal () s'"
  unfolding live_branch_def live_try_def live_except_def logging_def time_sleep_def invoke_def
  by (auto split: prod.splits sum.splits)

lemma final_dispatch_not_Exit: "final_dispatch c s \<noteq> Exit k s'"
  unfolding final_dispatch_def logging_def invoke_def
  by (auto split: prod.splits sum.splits)

lemma final_branch_Exit:
  assumes "final_branch cfg c s = Exit k s'"
  shows "k = 0 \<and> (\<exists>s1. final_dispatch c s = Normal () s1
      \<and> (all_social_sent (final_socials (game s1)) \<or> retries_exeeded (final_socials (game s1)))
      \<and> s' = s1\<lparr>trace := trace s1 @ replicate 6 (Logged INFO)\<rparr>)"
proof (cases "final_dispatch c s")
  case (Normal u s1)
  with assms show ?thesis
    by (auto simp: final_branch_eq split: if_splits)
next
  case (Raise e s1)
  with assms show ?thesis by (simp add: final_branch_eq)
next
  case (Exit k1 s1)
  with final_dispatch_not_Exit show ?thesis by blast
qed

lemma loop_body_Exit:
  assumes "loop_body cfg c s = Exit k s'"
  shows "GameState (game_state (game s)) = Inr FINAL \<and> final_branch cfg c s = Exit k s'"
proof (cases "GameState (game_state (game s))")
  case (Inl e)
  with assms show ?thesis by (simp add: loop_body_def)
next
  case (Inr p)
  show ?thesis
  proof (cases p)
    case PREVIEW
    with Inr assms have "preview_branch cfg c s = Exit k s'" by (simp add: loop_body_def)
    with preview_branch_not_Exit show ?thesis by blast
  next
    case LIVE
    with Inr assms live_branch_Normal [of cfg c s] show ?thesis by (auto simp: loop_body_def)
  next
    case FINAL
    with Inr assms show ?thesis by (simp add: loop_body_def)
  next
    case UNKNOWN
    with Inr assms show ?thesis
      by (simp add: loop_body_def unknown_branch_def logging_def time_sleep_def)
  qed
qed

text \<open>
  C3, as the code has it. A pass of the Final branch first fetches, updates the game and
  calls \<open>final_score\<close>, \<open>three_stars\<close> and \<open>nst_linetool\<close>. If the ledger is fully sent or
  the retries are exceeded after these calls, the pass logs and leaves through
  \<open>end_game_loop\<close> with status 0, without counting a retry and without sleeping. A
  pass that exits is a pass of the Final branch.
\<close>

theorem final_iteration_exit:
  "(GameState (game_state (game s)) = Inr FINAL \<and> final_dispatch c s = Normal u s1
      \<and> (all_social_sent (final_socials (game s1)) \<or> retries_exeeded (final_socials (game s1)))
     \<longrightarrow> loop_body cfg c s = Exit 0 (s1\<lparr>trace := trace s1 @ replicate 6 (Logged INFO)\<rparr>)
       \<and> (\<exists>g1 g2 g3. trace s1 = trace s @
            [Logged INFO, Called Get_livefeed (game s), Called Update_game g1,
             Called Final_score g2, Called Three_stars g3, Called Nst_linetool (game s1)]))
   \<and> (loop_body cfg c s = Exit k s'
     \<longrightarrow> GameState (game_state (game s)) = Inr FINAL \<and> k = 0
       \<and> (\<exists>s1. final_dispatch c s = Normal () s1
            \<and> (all_social_sent (final_socials (game s1)) \<or> retries_exeeded (final_socials (game s1)))
            \<and> s' = s1\<lparr>trace := trace s1 @ replicate 6 (Logged INFO)\<rparr>))"
proof (intro conjI impI)
  assume a: "GameState (game_state (game s)) = Inr FINAL \<and> final_dispatch c s = Normal u s1
      \<and> (all_social_sent (final_socials (game s1)) \<or> retries_exeeded (final_socials (game s1)))"
  then show "loop_body cfg c s = Exit 0 (s1\<lparr>trace := trace s1 @ replicate 6 (Logged INFO)\<rparr>)"
    by (auto simp: loop_body_def final_branch_eq)
  from a final_dispatch_trace show "\<exists>g1 g2 g3. trace s1 = trace s @
            [Logged INFO, Called Get_livefeed (game s), Called Update_game g1,
             Called Final_score g2, Called Three_stars g3, Called Nst_linetool (game s1)]"
    by blast
next
  assume e: "loop_body cfg c s = Exit k s'"
  from loop_body_Exit [OF e] show "GameState (game_state (game s)) = Inr FINAL" by simp
  from loop_body_Exit [OF e] final_branch_Exit show "k = 0" by blast
  from loop_body_Exit [OF e] final_branch_Exit show "\<exists>s1. final_dispatch c s = Normal () s1
            \<and> (all_social_sent (final_socials (game s1)) \<or> retries_exeeded (final_socials (game s1)))
            \<and> s' = s1\<lparr>trace := trace s1 @ replicate 6 (Logged INFO)\<rparr>" by blast
qed

lemma replicate_6: "replicate 6 x = [x, x, x, x, x, x]"
  by (simp add: numeral_eq_Suc)

lemma final_dispatch_idle:
  "final_dispatch idle \<lparr>game = g, world = w, trace = tr\<rparr> =
     Normal () \<lparr>game = g, world = w, trace = tr @
       [Logged INFO, Called Get_livefeed g, Called Update_game g,
        Called Final_score g, Called Three_stars g, Called Nst_linetool g]\<rparr>"
  by (simp add: final_dispatch_def logging_def invoke_def fetch_def idle_def)

text \<open>
  C3 as stated fails: with the ledger fully sent, the pass that exits has called the
  three dispatchers.
\<close>

theorem final_exit_after_dispatch:
  "GameState (game_state (sample_game ''Final'' 0 (unsent\<lparr>all_social_sent := True\<rparr>))) = Inr FINAL
   \<and> all_social_sent (final_socials (sample_game ''Final'' 0 (unsent\<lparr>all_social_sent := True\<rparr>)))
   \<and> loop_body sample_config idle
       \<lparr>game = sample_game ''Final'' 0 (unsent\<lparr>all_social_sent := True\<rparr>), world = 0, trace = []\<rparr>
     = Exit 0 \<lparr>game = sample_game ''Final'' 0 (unsent\<lparr>all_social_sent := True\<rparr>), world = 0,
         trace = [Logged INFO,
           Called Get_livefeed (sample_game ''Final'' 0 (unsent\<lparr>all_social_sent := True\<rparr>)),
           Called Update_game (sample_game ''Final'' 0 (unsent\<lparr>all_social_sent := True\<rparr>)),
           Called Final_score (sample_game ''Final'' 0 (unsent\<lparr>all_social_sent := True\<rparr>)),
           Called Three_stars (sample_game ''Final'' 0 (unsent\<lparr>all_social_sent := True\<rparr>)),
           Called Nst_linetool (sample_game ''Final'' 0 (unsent\<lparr>all_social_sent := True\<rparr>)),
           Logged INFO, Logged INFO, Logged INFO, Logged INFO, Logged INFO, Logged INFO]\<rparr>"
  by (simp add: loop_body_def GameState_def final_branch_eq final_dispatch_idle replicate_6)

theorem final_iteration_exit_witness:
  "loop_body sample_config idle
       \<lparr>game = sample_game ''Final'' 0 (unsent\<lparr>retry_count := 5\<rparr>), world = 0, trace = []\<rparr>
     = Exit 0 \<lparr>game = sample_game ''Final'' 0 (unsent\<lparr>retry_count := 5\<rparr>), world = 0,
         trace = [Logged INFO,
           Called Get_livefeed (sample_game ''Final'' 0 (unsent\<lparr>retry_count := 5\<rparr>)),
           Called Update_game (sample_game ''Final'' 0 (unsent\<lparr>retry_count := 5\<rparr>)),
           Called Final_score (sample_game ''Final'' 0 (unsent\<lparr>retry_count := 5\<rparr>)),
           Called Three_stars (sample_game ''Final'' 0 (unsent\<lparr>retry_count := 5\<rparr>)),
           Called Nst_linetool (sample_game ''Final'' 0 (unsent\<lparr>retry_count := 5\<rparr>)),
           Logged INFO, Logged INFO, Logged INFO, Logged INFO, Logged INFO, Logged INFO]\<rparr>"
proof -
  let ?g = "sample_game ''Final'' 0 (unsent\<lparr>retry_count := 5\<rparr>)"
  let ?s = "\<lparr>game = ?g, world = 0::nat, trace = []\<rparr>"
  let ?s1 = "\<lparr>game = ?g, world = 0::nat, trace =
      [Logged INFO, Called Get_livefeed ?g, Called Update_game ?g, Called Final_score ?g,
       Called Three_stars ?g, Called Nst_linetool ?g]\<rparr>"
  have pre: "GameState (game_state (game ?s)) = Inr FINAL \<and> final_dispatch idle ?s = Normal () ?s1
      \<and> (all_social_sent (final_socials (game ?s1)) \<or> retries_exeeded (final_socials (game ?s1)))"
    by (simp add: GameState_def final_dispatch_idle retries_exeeded_def unsent_def)
  have "loop_body sample_config idle ?s = Exit 0 (?s1\<lparr>trace := trace ?s1 @ replicate 6 (Logged INFO)\<rparr>)"
    by (rule final_iteration_exit [THEN conjunct1, rule_format, OF pre, THEN conjunct1])
  then show ?thesis by (simp add: replicate_6)
qed

subsection \<open>Exceptions in the Live branch\<close>

lemma live_branch_fetch_raises:
  assumes "get_livefeed c (game_id (game s)) (world s) = (Inl e, w1)"
  shows "live_branch cfg c s = Normal () (s\<lparr>world := w1, trace := trace s @
       [Logged INFO, Logged INFO, Failed Get_livefeed e (game s), Logged ERROR, Logged ERROR,
        Slept (live_sleep_time cfg)]\<rparr>)"
  using assms
  by (simp add: live_branch_def live_try_def live_except_def logging_def time_sleep_def
      invoke_def fetch_def)

lemma live_branch_live_loop_raises:
  assumes "get_livefeed c (game_id (game s)) (world s) = (Inr resp, w1)"
    and "live_loop c resp (game s) w1 = (Inl e, g2, w2)"
  shows "live_branch cfg c s = Normal () (s\<lparr>game := g2, world := w2, trace := trace s @
       [Logged INFO, Logged INFO, Called Get_livefeed (game s), Failed Live_loop e g2,
        Logged ERROR, Logged ERROR, Slept (live_sleep_time cfg)]\<rparr>)"
  using assms
  by (simp add: live_branch_def live_try_def live_except_def logging_def time_sleep_def
      invoke_def fetch_def)

lemma live_branch_update_raises:
  assumes "get_livefeed c (game_id (game s)) (world s) = (Inr resp, w1)"
    and "live_loop c resp (game s) w1 = (Inr u, g2, w2)"
    and "update_game c resp g2 w2 = (Inl e, g3, w3)"
  shows "live_branch cfg c s = Normal () (s\<lparr>game := g3, world := w3, trace := trace s @
       [Logged INFO, Logged INFO, Called Get_livefeed (game s), Called Live_loop g2,
        Failed Update_game e g3, Logged ERROR, Logged ERROR, Slept (live_sleep_time cfg)]\<rparr>)"
  using assms
  by (simp add: live_branch_def live_try_def live_except_def logging_def time_sleep_def
      invoke_def fetch_def)

text \<open>
  C5, as the code has it. In a pass of the Live branch every exception raised by the
  fetch, by \<open>live_loop\<close> or by \<open>update_game\<close> is caught and logged, and the pass ends
  with the sleep of \<open>live_sleep_time\<close>. The handler rolls nothing back: the game is as
  the raising call left it. When the fetch raises, neither \<open>live_loop\<close> nor
  \<open>update_game\<close> is called and the game is unchanged; when \<open>live_loop\<close> raises,
  \<open>update_game\<close> is not called.
\<close>

theorem live_iteration_caught:
  assumes "GameState (game_state (game s)) = Inr LIVE"
  shows "(\<exists>s'. loop_body cfg c s = Normal () s')
    \<and> (get_livefeed c (game_id (game s)) (world s) = (Inl e, w1)
       \<longrightarrow> loop_body cfg c s = Normal () (s\<lparr>world := w1, trace := trace s @
             [Logged INFO, Logged INFO, Failed Get_livefeed e (game s), Logged ERROR,
              Logged ERROR, Slept (live_sleep_time cfg)]\<rparr>))
    \<and> (get_livefeed c (game_id (game s)) (world s) = (Inr resp, w1)
         \<and> live_loop c resp (game s) w1 = (Inl e, g2, w2)
       \<longrightarrow> loop_body cfg c s = Normal () (s\<lparr>game := g2, world := w2, trace := trace s @
             [Logged INFO, Logged INFO, Called Get_livefeed (game s), Failed Live_loop e g2,
              Logged ERROR, Logged ERROR, Slept (live_sleep_time cfg)]\<rparr>))
    \<and> (get_livefeed c (game_id (game s)) (world s) = (Inr resp, w1)
         \<and> live_loop c resp (game s) w1 = (Inr u, g2, w2)
         \<and> update_game c resp g2 w2 = (Inl e, g3, w3)
       \<longrightarrow> loop_body cfg c s = Normal () (s\<lparr>game := g3, world := w3, trace := trace s @
             [Logged INFO, Logged INFO, Called Get_livefeed (game s), Called Live_loop g2,
              Failed Update_game e g3, Logged ERROR, Logged ERROR,
              Slept (live_sleep_time cfg)]\<rparr>))"
proof -
  have body: "loop_body cfg c s = live_branch cfg c s"
    using assms by (simp add: loop_body_def)
  show ?thesis
    unfolding body
  proof (intro conjI impI)
    show "\<exists>s'. live_branch cfg c s = Normal () s'"
      by (rule live_branch_Normal)
  next
    assume "get_livefeed c (game_id (game s)) (world s) = (Inl e, w1)"
    then show "live_branch cfg c s = Normal () (s\<lparr>world := w1, trace := trace s @
             [Logged INFO, Logged INFO, Failed Get_livefeed e (game s), Logged ERROR,
              Logged ERROR, Slept (live_sleep_time cfg)]\<rparr>)"
      by (rule live_branch_fetch_raises)
  next
    assume a: "get_livefeed c (game_id (game s)) (world s) = (Inr resp, w1)
         \<and> live_loop c resp (game s) w1 = (Inl e, g2, w2)"
    show "live_branch cfg c s = Normal () (s\<lparr>game := g2, world := w2, trace := trace s @
             [Logged INFO, Logged INFO, Called Get_livefeed (game s), Failed Live_loop e g2,
              Logged ERROR, Logged ERROR, Slept (live_sleep_time cfg)]\<rparr>)"
      by (rule live_branch_live_loop_raises [OF a [THEN conjunct1] a [THEN conjunct2]])
  next
    assume a: "get_livefeed c (game_id (game s)) (world s) = (Inr resp, w1)
         \<and> live_loop c resp (game s) w1 = (Inr u, g2, w2)
         \<and> update_game c resp g2 w2 = (Inl e, g3, w3)"
    show "live_branch cfg c s = Normal () (s\<lparr>game := g3, world := w3, trace := trace s @
             [Logged INFO, Logged INFO, Called Get_livefeed (game s), Called Live_loop g2,
              Failed Update_game e g3, Logged ERROR, Logged ERROR,
              Slept (live_sleep_time cfg)]\<rparr>)"
      by (rule live_branch_update_raises [OF a [THEN conjunct1]
            a [THEN conjunct2, THEN conjunct1] a [THEN conjunct2, THEN conjunct2]])
  qed
qed

theorem live_iteration_caught_witness:
  "loop_body sample_config feed_down
      \<lparr>game = sample_game ''Live'' 0 unsent, world = 0, trace = []\<rparr>
   = Normal () \<lparr>game = sample_game ''Live'' 0 unsent, world = 0, trace =
       [Logged INFO, Logged INFO, Failed Get_livefeed FeedUnavailable (sample_game ''Live'' 0 unsent),
        Logged ERROR, Logged ERROR, Slept 60]\<rparr>"
proof -
  let ?s = "\<lparr>game = sample_game ''Live'' 0 unsent, world = 0::nat, trace = []\<rparr>"
  have live: "GameState (game_state (game ?s)) = Inr LIVE"
    by (simp add: GameState_def)
  have down: "get_livefeed feed_down (game_id (game ?s)) (world ?s) = (Inl FeedUnavailable, 0)"
    by (simp add: feed_down_def)
  from live_iteration_caught [OF live, THEN conjunct2, THEN conjunct1, rule_format, OF down]
  have "loop_body sample_config feed_down ?s = Normal () (?s\<lparr>world := 0, trace := trace ?s @
       [Logged INFO, Logged INFO, Failed Get_livefeed FeedUnavailable (game ?s), Logged ERROR,
        Logged ERROR, Slept (live_sleep_time sample_config)]\<rparr>)" .
  then show ?thesis by (simp add: sample_config_def)
qed

text \<open>
  C5 as stated fails: \<open>update_game\<close> is reached, stores a new last event index and then
  raises; the exception is caught, and the index stays changed.
\<close>

theorem live_exception_keeps_changes:
  "GameState (game_state (sample_game ''Live'' 0 unsent)) = Inr LIVE
   \<and> last_event_idx (sample_game ''Live'' 0 unsent) = 0
   \<and> loop_body sample_config half_update
      \<lparr>game = sample_game ''Live'' 0 unsent, world = 0, trace = []\<rparr>
   = Normal () \<lparr>game = (sample_game ''Live'' 0 unsent)\<lparr>last_event_idx := 7\<rparr>, world = 0, trace =
       [Logged INFO, Logged INFO, Called Get_livefeed (sample_game ''Live'' 0 unsent),
        Called Live_loop (sample_game ''Live'' 0 unsent),
        Failed Update_game KeyError ((sample_game ''Live'' 0 unsent)\<lparr>last_event_idx := 7\<rparr>),
        Logged ERROR, Logged ERROR, Slept 60]\<rparr>"
  by (simp add: loop_body_def GameState_def live_branch_def live_try_def live_except_def
      logging_def time_sleep_def invoke_def fetch_def half_update_def idle_def sample_config_def)

subsection \<open>Exit status\<close>

lemma start_game_loop_Exit:
  "start_game_loop n cfg c s = Exit k s' \<Longrightarrow> k = 0"
proof (induction n arbitrary: s)
  case 0
  then show ?case by simp
next
  case (Suc n)
  from Suc.prems have "and_then (loop_body cfg c s) (\<lambda>_ s1. start_game_loop n cfg c s1) = Exit k s'"
    by simp
  then consider "loop_body cfg c s = Exit k s'"
    | v s1 where "loop_body cfg c s = Normal v s1" "start_game_loop n cfg c s1 = Exit k s'"
    using and_then_Exit by fastforce
  then show ?case
  proof cases
    case 1
    with loop_body_Exit final_branch_Exit show ?thesis by blast
  next
    case 2
    with Suc.IH show ?thesis by blast
  qed
qed

text \<open>
  C8. The process exits with status 0 when no game is scheduled for the date, and it
  exits with status 0 when \<open>run\<close> returns a game and the loop leaves through
  \<open>end_game_loop\<close>, which is the only exit of the loop; whenever the process ends through
  \<open>sys.exit\<close>, the status is 0.
\<close>

theorem exit_status_zero:
  "(startup env w = (Inr (False, info), w1)
      \<longrightarrow> run env w = Exit 0 w1 \<and> main n cfg env c w = Exit_status 0)
   \<and> end_game_loop s = Exit 0 (s\<lparr>trace := trace s @ replicate 5 (Logged INFO)\<rparr>)
   \<and> (run env w = Normal g w' \<and> start_game_loop n cfg c \<lparr>game = g, world = w', trace = []\<rparr> = Exit k s'
      \<longrightarrow> main n cfg env c w = Exit_status 0)
   \<and> (loop_body cfg c s = Exit k s'
      \<longrightarrow> (\<exists>s1. final_check s1 = Exit k s' \<and> k = 0))
   \<and> (main n cfg env c w = Exit_status k \<longrightarrow> k = 0)"
proof (intro conjI impI)
  assume a: "startup env w = (Inr (False, info), w1)"
  then show r: "run env w = Exit 0 w1" by (simp add: run_def sys_exit_def)
  then show "main n cfg env c w = Exit_status 0" by (simp add: main_def)
next
  show "end_game_loop s = Exit 0 (s\<lparr>trace := trace s @ replicate 5 (Logged INFO)\<rparr>)"
    by (rule end_game_loop_eq)
next
  assume a: "run env w = Normal g w'
    \<and> start_game_loop n cfg c \<lparr>game = g, world = w', trace = []\<rparr> = Exit k s'"
  from a start_game_loop_Exit have "k = 0" by blast
  with a show "main n cfg env c w = Exit_status 0" by (simp add: main_def)
next
  assume e: "loop_body cfg c s = Exit k s'"
  from loop_body_Exit [OF e] final_branch_Exit obtain s1
    where "k = 0" and "final_dispatch c s = Normal () s1"
      and "all_social_sent (final_socials (game s1)) \<or> retries_exeeded (final_socials (game s1))"
      and "s' = s1\<lparr>trace := trace s1 @ replicate 6 (Logged INFO)\<rparr>"
    by blast
  then have "final_check s1 = Exit k s' \<and> k = 0"
    by (simp add: final_check_eq)
  then show "\<exists>s1. final_check s1 = Exit k s' \<and> k = 0" ..
next
  assume m: "main n cfg env c w = Exit_status k"
  have run_exit: "k' = 0" if "run env w = Exit k' w'" for k' w'
    using that by (auto simp: run_def sys_exit_def split: prod.splits sum.splits if_splits)
  show "k = 0"
  proof (cases "run env w")
    case (Normal g w')
    with m start_game_loop_Exit show ?thesis
      by (auto simp: main_def split: outcome.splits)
  next
    case (Raise e w')
    with m show ?thesis by (simp add: main_def)
  next
    case (Exit k' w')
    with m run_exit show ?thesis by (auto simp: main_def)
  qed
qed

theorem exit_status_zero_witness:
  "run no_game_today (0::nat) = Exit 0 0
   \<and> main 3 sample_config no_game_today idle 0 = Exit_status 0
   \<and> run final_game_today (0::nat) = Normal (sample_game ''Final'' 0 (unsent\<lparr>all_social_sent := True\<rparr>)) 0
   \<and> start_game_loop 1 sample_config idle
        \<lparr>game = sample_game ''Final'' 0 (unsent\<lparr>all_social_sent := True\<rparr>), world = 0, trace = []\<rparr>
      = Exit 0 \<lparr>game = sample_game ''Final'' 0 (unsent\<lparr>all_social_sent := True\<rparr>), world = 0,
          trace = [Logged INFO,
            Called Get_livefeed (sample_game ''Final'' 0 (unsent\<lparr>all_social_sent := True\<rparr>)),
            Called Update_game (sample_game ''Final'' 0 (unsent\<lparr>all_social_sent := True\<rparr>)),
            Called Final_score (sample_game ''Final'' 0 (unsent\<lparr>all_social_sent := True\<rparr>)),
            Called Three_stars (sample_game ''Final'' 0 (unsent\<lparr>all_social_sent := True\<rparr>)),
            Called Nst_linetool (sample_game ''Final'' 0 (unsent\<lparr>all_social_sent := True\<rparr>)),
            Logged INFO, Logged INFO, Logged INFO, Logged INFO, Logged INFO, Logged INFO]\<rparr>
   \<and> main 1 sample_config final_game_today idle 0 = Exit_status 0"
proof -
  let ?g = "sample_game ''Final'' 0 (unsent\<lparr>all_social_sent := True\<rparr>)"
  let ?s' = "\<lparr>game = ?g, world = 0::nat,
          trace = [Logged INFO, Called Get_livefeed ?g, Called Update_game ?g,
            Called Final_score ?g, Called Three_stars ?g, Called Nst_linetool ?g,
            Logged INFO, Logged INFO, Logged INFO, Logged INFO, Logged INFO, Logged INFO]\<rparr>"
  have none: "startup no_game_today (0::nat) = (Inr (False, PyNone), 0)"
    by (simp add: no_game_today_def)
  have no_game: "run no_game_today (0::nat) = Exit 0 0
      \<and> main 3 sample_config no_game_today idle 0 = Exit_status 0"
    by (rule exit_status_zero [THEN conjunct1, rule_format, OF none])
  have r: "run final_game_today (0::nat) = Normal ?g 0"
    by (simp add: run_def final_game_today_def)
  have e: "start_game_loop 1 sample_config idle \<lparr>game = ?g, world = 0, trace = []\<rparr> = Exit 0 ?s'"
    by (simp add: loop_body_def GameState_def final_branch_eq final_dispatch_idle replicate_6)
  have "main 1 sample_config final_game_today idle 0 = Exit_status 0"
    by (rule exit_status_zero [THEN conjunct2, THEN conjunct2, THEN conjunct1, rule_format,
          OF conjI [OF r e]])
  with no_game r e show ?thesis by blast
qed

subsection \<open>Bounded retries in the Final branch\<close>

lemma invoke_returns:
  assumes "returns (f (game s) (world s))"
  shows "\<exists>v s1. invoke nm f s = Normal v s1 \<and> game s1 = after (f (game s) (world s))"
  using assms
  by (auto simp: invoke_def returns_def after_def split: prod.splits sum.splits)

lemma fetch_returns: "returns (get_livefeed c (game_id g) w) \<Longrightarrow> returns (fetch c g w)"
  by (cases "get_livefeed c (game_id g) w") (simp add: fetch_def returns_def)

lemma fetch_after: "after (fetch c g w) = g"
  by (cases "get_livefeed c (game_id g) w") (simp add: fetch_def after_def)

lemma final_dispatch_quiet:
  assumes ret: "final_calls_return c" and st: "stable c P" and P0: "P (game s)"
  shows "\<exists>s1. final_dispatch c s = Normal () s1 \<and> P (game s1)"
proof -
  let ?s0 = "s\<lparr>trace := trace s @ [Logged INFO]\<rparr>"
  have "returns (fetch c (game ?s0) (world ?s0))"
    using ret by (simp add: final_calls_return_def fetch_returns)
  from invoke_returns [of "fetch c" ?s0 Get_livefeed, OF this] obtain resp s1
    where i1: "invoke Get_livefeed (fetch c) ?s0 = Normal resp s1"
      and g1: "game s1 = after (fetch c (game ?s0) (world ?s0))"
    by blast
  from g1 P0 have P1: "P (game s1)" by (simp add: fetch_after)
  have "returns (update_game c resp (game s1) (world s1))"
    using ret by (simp add: final_calls_return_def)
  from invoke_returns [of "update_game c resp" s1 Update_game, OF this] obtain u2 s2
    where i2: "invoke Update_game (update_game c resp) s1 = Normal u2 s2"
      and g2: "game s2 = after (update_game c resp (game s1) (world s1))"
    by blast
  from st P1 g2 have P2: "P (game s2)" by (simp add: stable_def)
  have "returns (final_score c resp (game s2) (world s2))"
    using ret by (simp add: final_calls_return_def)
  from invoke_returns [of "final_score c resp" s2 Final_score, OF this] obtain u3 s3
    where i3: "invoke Final_score (final_score c resp) s2 = Normal u3 s3"
      and g3: "game s3 = after (final_score c resp (game s2) (world s2))"
    by blast
  from st P2 g3 have P3: "P (game s3)" by (simp add: stable_def)
  have "returns (three_stars c resp (game s3) (world s3))"
    using ret by (simp add: final_calls_return_def)
  from invoke_returns [of "three_stars c resp" s3 Three_stars, OF this] obtain u4 s4
    where i4: "invoke Three_stars (three_stars c resp) s3 = Normal u4 s4"
      and g4: "game s4 = after (three_stars c resp (game s3) (world s3))"
    by blast
  from st P3 g4 have P4: "P (game s4)" by (simp add: stable_def)
  have "returns (nst_linetool c (game s4) (preferred_team (game s4)) (world s4))"
    using ret by (simp add: final_calls_return_def)
  from invoke_returns [of "\<lambda>g. nst_linetool c g (preferred_team g)" s4 Nst_linetool, OF this] obtain u5 s5
    where i5: "invoke Nst_linetool (\<lambda>g. nst_linetool c g (preferred_team g)) s4 = Normal u5 s5"
      and g5: "game s5 = after (nst_linetool c (game s4) (preferred_team (game s4)) (world s4))"
    by blast
  from st P4 g5 have P5: "P (game s5)" by (simp add: stable_def)
  have "final_dispatch c s = Normal () s5"
    by (simp add: final_dispatch_def logging_def i1 i2 i3 i4 i5)
  with P5 show ?thesis by blast
qed


lemma stable_conj: "stable c P \<Longrightarrow> stable c Q \<Longrightarrow> stable c (\<lambda>g. P g \<and> Q g)"
  unfolding stable_def by blast

lemma final_rounds_refl: "final_rounds secs tr tr 0 0"
  by (simp add: final_rounds_def)

lemma final_rounds_trans:
  assumes "final_rounds secs tr1 tr2 k j" and "final_rounds secs tr2 tr3 k' j'"
  shows "final_rounds secs tr1 tr3 (k + k') (j + j')"
  using assms by (simp add: final_rounds_def)

lemma final_rounds_exit:
  assumes "tr' = tr @ [Logged INFO, Called Get_livefeed g0, Called Update_game g1,
       Called Final_score g2, Called Three_stars g3, Called Nst_linetool g4]
       @ replicate 6 (Logged INFO)"
  shows "final_rounds secs tr tr' 1 0"
  unfolding assms
  by (simp add: final_rounds_def final_phase_calls_def calls_of_def replicate_6)

lemma final_rounds_go_on:
  assumes "tr' = tr @ [Logged INFO, Called Get_livefeed g0, Called Update_game g1,
       Called Final_score g2, Called Three_stars g3, Called Nst_linetool g4]
       @ [Logged INFO, Slept secs]"
  shows "final_rounds secs tr tr' 1 1"
  unfolding assms
  by (simp add: final_rounds_def final_phase_calls_def calls_of_def)

lemma final_pass_quiet:
  assumes ret: "final_calls_return c"
    and keep: "\<forall>fs. stable c (\<lambda>g. final_socials g = fs)"
    and fin: "stable c (\<lambda>g. GameState (game_state g) = Inr FINAL)"
    and F: "GameState (game_state (game s)) = Inr FINAL"
    and fs: "final_socials (game s) = fs"
  shows "if all_social_sent fs \<or> retries_exeeded fs
    then \<exists>s'. loop_body cfg c s = Exit 0 s' \<and> final_socials (game s') = fs
        \<and> final_rounds (final_sleep_time cfg) (trace s) (trace s') 1 0
    else \<exists>s'. loop_body cfg c s = Normal () s'
        \<and> final_socials (game s') = fs\<lparr>retry_count := retry_count fs + 1\<rparr>
        \<and> GameState (game_state (game s')) = Inr FINAL
        \<and> final_rounds (final_sleep_time cfg) (trace s) (trace s') 1 1"
proof -
  from keep have "stable c (\<lambda>g. final_socials g = fs)" by blast
  from stable_conj [OF this fin]
  have st: "stable c (\<lambda>g. final_socials g = fs \<and> GameState (game_state g) = Inr FINAL)" .
  from final_dispatch_quiet [OF ret st] F fs obtain s1
    where d: "final_dispatch c s = Normal () s1"
      and f1: "final_socials (game s1) = fs"
      and F1: "GameState (game_state (game s1)) = Inr FINAL"
    by blast
  from final_dispatch_trace [OF d] obtain g1 g2 g3
    where tr: "trace s1 = trace s @ [Logged INFO, Called Get_livefeed (game s),
        Called Update_game g1, Called Final_score g2, Called Three_stars g3,
        Called Nst_linetool (game s1)]"
    by blast
  have out: "final_rounds (final_sleep_time cfg) (trace s)
      (trace s1 @ replicate 6 (Logged INFO)) 1 0"
    by (rule final_rounds_exit) (simp add: tr)
  have on: "final_rounds (final_sleep_time cfg) (trace s)
      (trace s1 @ [Logged INFO, Slept (final_sleep_time cfg)]) 1 1"
    by (rule final_rounds_go_on) (simp add: tr)
  have body: "loop_body cfg c s = final_branch cfg c s"
    using F by (simp add: loop_body_def)
  show ?thesis
    unfolding body final_branch_eq d
    using f1 F1 out on by simp
qed

lemma final_passes_continue:
  assumes ret: "final_calls_return c"
    and keep: "\<forall>fs. stable c (\<lambda>g. final_socials g = fs)"
    and fin: "stable c (\<lambda>g. GameState (game_state g) = Inr FINAL)"
  shows "GameState (game_state (game s)) = Inr FINAL \<Longrightarrow>
      final_socials (game s) = \<lparr>all_social_sent = False, retry_count = r, max_retries = m\<rparr> \<Longrightarrow>
      r + int n \<le> m \<Longrightarrow>
      \<exists>s'. start_game_loop n cfg c s = Normal () s'
        \<and> final_socials (game s') = \<lparr>all_social_sent = False, retry_count = r + int n, max_retries = m\<rparr>
        \<and> GameState (game_state (game s')) = Inr FINAL
        \<and> final_rounds (final_sleep_time cfg) (trace s) (trace s') n n"
proof (induction n arbitrary: s r)
  case 0
  then show ?case by (simp add: final_rounds_refl)
next
  case (Suc n)
  let ?fs = "\<lparr>all_social_sent = False, retry_count = r, max_retries = m\<rparr>"
  from Suc.prems(3) have "\<not> (all_social_sent ?fs \<or> retries_exeeded ?fs)"
    by (simp add: retries_exeeded_def)
  with final_pass_quiet [OF ret keep fin Suc.prems(1) Suc.prems(2), of cfg]
  obtain s1 where p: "loop_body cfg c s = Normal () s1"
      and f1: "final_socials (game s1) = ?fs\<lparr>retry_count := retry_count ?fs + 1\<rparr>"
      and F1: "GameState (game_state (game s1)) = Inr FINAL"
      and c1: "final_rounds (final_sleep_time cfg) (trace s) (trace s1) 1 1"
    by auto
  from f1 have f1': "final_socials (game s1) =
      \<lparr>all_social_sent = False, retry_count = r + 1, max_retries = m\<rparr>"
    by simp
  from Suc.prems(3) have "(r + 1) + int n \<le> m" by simp
  from Suc.IH [OF F1 f1' this] obtain s' where
    l: "start_game_loop n cfg c s1 = Normal () s'"
    and f: "final_socials (game s') = \<lparr>all_social_sent = False, retry_count = r + 1 + int n, max_retries = m\<rparr>"
    and F': "GameState (game_state (game s')) = Inr FINAL"
    and c': "final_rounds (final_sleep_time cfg) (trace s1) (trace s') n n"
    by blast
  from final_rounds_trans [OF c1 c']
  have "final_rounds (final_sleep_time cfg) (trace s) (trace s') (Suc n) (Suc n)" by simp
  with p l f F' show ?case by (simp add: add.assoc add.commute)
qed

lemma start_game_loop_add:
  "start_game_loop (a + b) cfg c s =
     and_then (start_game_loop a cfg c s) (\<lambda>_ s'. start_game_loop b cfg c s')"
proof (induction a arbitrary: s)
  case 0
  then show ?case by simp
next
  case (Suc a)
  then show ?case by (cases "loop_body cfg c s") simp_all
qed

lemma final_pass_exits:
  assumes "final_calls_return c"
    and "\<forall>fs. stable c (\<lambda>g. final_socials g = fs)"
    and "stable c (\<lambda>g. GameState (game_state g) = Inr FINAL)"
    and "GameState (game_state (game s)) = Inr FINAL"
    and "all_social_sent (final_socials (game s)) \<or> retries_exeeded (final_socials (game s))"
  shows "\<exists>s'. loop_body cfg c s = Exit 0 s' \<and> final_socials (game s') = final_socials (game s)
    \<and> final_rounds (final_sleep_time cfg) (trace s) (trace s') 1 0"
  using final_pass_quiet [OF assms(1,2,3,4) refl, of cfg] assms(5) by simp

lemma final_pass_continues:
  assumes "final_calls_return c"
    and "\<forall>fs. stable c (\<lambda>g. final_socials g = fs)"
    and "stable c (\<lambda>g. GameState (game_state g) = Inr FINAL)"
    and "GameState (game_state (game s)) = Inr FINAL"
    and "loop_body cfg c s = Normal () s'"
  shows "retry_count (final_socials (game s')) = retry_count (final_socials (game s)) + 1
    \<and> final_rounds (final_sleep_time cfg) (trace s) (trace s') 1 1"
proof (cases "all_social_sent (final_socials (game s)) \<or> retries_exeeded (final_socials (game s))")
  case True
  from final_pass_exits [OF assms(1,2,3,4) True, of cfg] assms(5) show ?thesis by auto
next
  case False
  with final_pass_quiet [OF assms(1,2,3,4) refl, of cfg]
  have "\<exists>s1. loop_body cfg c s = Normal () s1
        \<and> final_socials (game s1) = (final_socials (game s))\<lparr>retry_count := retry_count (final_socials (game s)) + 1\<rparr>
        \<and> GameState (game_state (game s1)) = Inr FINAL
        \<and> final_rounds (final_sleep_time cfg) (trace s) (trace s1) 1 1"
    by simp
  with assms(5) show ?thesis by auto
qed

lemma final_pass_exit_keeps:
  assumes "final_calls_return c"
    and "\<forall>fs. stable c (\<lambda>g. final_socials g = fs)"
    and "stable c (\<lambda>g. GameState (game_state g) = Inr FINAL)"
    and "loop_body cfg c s = Exit k s'"
  shows "retry_count (final_socials (game s')) = retry_count (final_socials (game s))
    \<and> final_rounds (final_sleep_time cfg) (trace s) (trace s') 1 0"
proof -
  from loop_body_Exit [OF assms(4)] have F: "GameState (game_state (game s)) = Inr FINAL" ..
  show ?thesis
  proof (cases "all_social_sent (final_socials (game s)) \<or> retries_exeeded (final_socials (game s))")
    case True
    from final_pass_exits [OF assms(1,2,3) F True, of cfg] assms(4) show ?thesis by auto
  next
    case False
    with final_pass_quiet [OF assms(1,2,3) F refl, of cfg]
    have "\<exists>s1. loop_body cfg c s = Normal () s1" by auto
    with assms(4) show ?thesis by auto
  qed
qed

text \<open>
  C4, as the code has it. Maximum retries 5, and dispatchers that fail on every attempt:
  no call of the Final branch raises, the calls leave \<open>final_socials\<close> as it is (no flag
  is set) and the feed keeps reporting Final. From a retry count of 0 the loop makes six
  passes of the Final branch, each with a fetch, an update and a round of the three
  dispatchers. The first five go on: after \<open>n\<close> of them the count is \<open>n\<close>, and \<open>n\<close> rounds
  and \<open>n\<close> sleeps have been made. The sixth makes its round and then exits with status 0,
  without counting and without sleeping, whatever number of passes above 5 the loop is
  given. A pass of the Final branch that goes on adds exactly one to the retry counter;
  the pass that exits adds nothing.
\<close>

theorem final_retries_bounded:
  assumes "final_calls_return c"
    and "\<forall>fs. stable c (\<lambda>g. final_socials g = fs)"
    and "stable c (\<lambda>g. GameState (game_state g) = Inr FINAL)"
    and "GameState (game_state (game s)) = Inr FINAL"
    and "final_socials (game s) = \<lparr>all_social_sent = False, retry_count = 0, max_retries = 5\<rparr>"
  shows "(\<forall>n\<le>5. \<exists>s'. start_game_loop n cfg c s = Normal () s'
            \<and> retry_count (final_socials (game s')) = int n
            \<and> final_rounds (final_sleep_time cfg) (trace s) (trace s') n n)
    \<and> (\<forall>n>5. \<exists>s'. start_game_loop n cfg c s = Exit 0 s'
            \<and> retry_count (final_socials (game s')) = 5
            \<and> final_rounds (final_sleep_time cfg) (trace s) (trace s') 6 5)
    \<and> (\<forall>t t'. GameState (game_state (game t)) = Inr FINAL \<and> loop_body cfg c t = Normal () t'
          \<longrightarrow> retry_count (final_socials (game t')) = retry_count (final_socials (game t)) + 1
            \<and> final_rounds (final_sleep_time cfg) (trace t) (trace t') 1 1)
    \<and> (\<forall>t k t'. loop_body cfg c t = Exit k t'
          \<longrightarrow> retry_count (final_socials (game t')) = retry_count (final_socials (game t))
            \<and> final_rounds (final_sleep_time cfg) (trace t) (trace t') 1 0)"
proof (intro conjI allI impI)
  fix n :: nat
  assume "n \<le> 5"
  then have "0 + int n \<le> 5" by simp
  from final_passes_continue [OF assms(1,2,3,4,5) this, of cfg] obtain s'
    where "start_game_loop n cfg c s = Normal () s'"
      and "final_socials (game s') = \<lparr>all_social_sent = False, retry_count = 0 + int n, max_retries = 5\<rparr>"
      and "final_rounds (final_sleep_time cfg) (trace s) (trace s') n n"
    by blast
  then have "start_game_loop n cfg c s = Normal () s'
      \<and> retry_count (final_socials (game s')) = int n
      \<and> final_rounds (final_sleep_time cfg) (trace s) (trace s') n n"
    by simp
  then show "\<exists>s'. start_game_loop n cfg c s = Normal () s'
            \<and> retry_count (final_socials (game s')) = int n
            \<and> final_rounds (final_sleep_time cfg) (trace s) (trace s') n n" ..
next
  fix n :: nat
  assume "5 < n"
  then have "n = 5 + Suc (n - 6)" by simp
  then obtain j where n: "n = 5 + Suc j" ..
  have "(0::int) + int 5 \<le> 5" by simp
  from final_passes_continue [OF assms(1,2,3,4,5) this, of cfg] obtain s5
    where r5: "start_game_loop 5 cfg c s = Normal () s5"
      and f5: "final_socials (game s5) = \<lparr>all_social_sent = False, retry_count = 0 + int 5, max_retries = 5\<rparr>"
      and F5: "GameState (game_state (game s5)) = Inr FINAL"
      and c5: "final_rounds (final_sleep_time cfg) (trace s) (trace s5) 5 5"
    by blast
  from f5 have rc5: "retry_count (final_socials (game s5)) = 5" by simp
  have "all_social_sent (final_socials (game s5)) \<or> retries_exeeded (final_socials (game s5))"
    using f5 by (simp add: retries_exeeded_def)
  from final_pass_exits [OF assms(1,2,3) F5 this, of cfg] obtain s'
    where e: "loop_body cfg c s5 = Exit 0 s'"
      and f': "final_socials (game s') = final_socials (game s5)"
      and c6: "final_rounds (final_sleep_time cfg) (trace s5) (trace s') 1 0"
    by blast
  from final_rounds_trans [OF c5 c6]
  have c: "final_rounds (final_sleep_time cfg) (trace s) (trace s') 6 5" by simp
  have "start_game_loop (5 + Suc j) cfg c s = Exit 0 s'"
    by (simp only: start_game_loop_add r5 and_then_simps start_game_loop.simps e)
  with f' rc5 n c have "start_game_loop n cfg c s = Exit 0 s'
            \<and> retry_count (final_socials (game s')) = 5
            \<and> final_rounds (final_sleep_time cfg) (trace s) (trace s') 6 5"
    by simp
  then show "\<exists>s'. start_game_loop n cfg c s = Exit 0 s'
            \<and> retry_count (final_socials (game s')) = 5
            \<and> final_rounds (final_sleep_time cfg) (trace s) (trace s') 6 5" ..
next
  fix t t'
  assume a: "GameState (game_state (game t)) = Inr FINAL \<and> loop_body cfg c t = Normal () t'"
  note one = final_pass_continues [OF assms(1,2,3) a [THEN conjunct1] a [THEN conjunct2]]
  from one show "retry_count (final_socials (game t')) = retry_count (final_socials (game t)) + 1" ..
  from one show "final_rounds (final_sleep_time cfg) (trace t) (trace t') 1 1" ..
next
  fix t k t'
  assume e: "loop_body cfg c t = Exit k t'"
  note none = final_pass_exit_keeps [OF assms(1,2,3) e]
  from none show "retry_count (final_socials (game t')) = retry_count (final_socials (game t))" ..
  from none show "final_rounds (final_sleep_time cfg) (trace t) (trace t') 1 0" ..
qed

lemma stable_idle: "stable idle P"
  by (simp add: stable_def idle_def after_def)

lemma final_calls_return_idle: "final_calls_return idle"
  by (simp add: final_calls_return_def idle_def returns_def)

theorem final_retries_bounded_witness:
  "(\<exists>s'. start_game_loop 5 sample_config idle
            \<lparr>game = sample_game ''Final'' 0 unsent, world = 0, trace = []\<rparr> = Normal () s'
         \<and> retry_count (final_socials (game s')) = 5
         \<and> final_rounds 120 [] (trace s') 5 5)
   \<and> (\<exists>s'. start_game_loop 6 sample_config idle
            \<lparr>game = sample_game ''Final'' 0 unsent, world = 0, trace = []\<rparr> = Exit 0 s'
         \<and> retry_count (final_socials (game s')) = 5
         \<and> final_rounds 120 [] (trace s') 6 5)"
proof -
  let ?s = "\<lparr>game = sample_game ''Final'' 0 unsent, world = 0::nat, trace = []\<rparr>"
  have st: "\<forall>fs. stable idle (\<lambda>g. final_socials g = fs)"
    using stable_idle by blast
  have F: "GameState (game_state (game ?s)) = Inr FINAL"
    by (simp add: GameState_def)
  have fs: "final_socials (game ?s) = \<lparr>all_social_sent = False, retry_count = 0, max_retries = 5\<rparr>"
    by (simp add: unsent_def)
  note bounded = final_retries_bounded [OF final_calls_return_idle st stable_idle F fs, of sample_config]
  have five: "(5::nat) \<le> 5" and six: "(5::nat) < 6" by simp_all
  from bounded [THEN conjunct1, rule_format, OF five]
  have a: "\<exists>s'. start_game_loop 5 sample_config idle ?s = Normal () s'
         \<and> retry_count (final_socials (game s')) = 5
         \<and> final_rounds 120 [] (trace s') 5 5"
    by (simp add: sample_config_def)
  from bounded [THEN conjunct2, THEN conjunct1, rule_format, OF six]
  have b: "\<exists>s'. start_game_loop 6 sample_config idle ?s = Exit 0 s'
         \<and> retry_count (final_socials (game s')) = 5
         \<and> final_rounds 120 [] (trace s') 6 5"
    by (simp add: sample_config_def)
  from a b show ?thesis ..
qed

lemma start_game_loop_numeral:
  "start_game_loop (numeral k) cfg c s =
     and_then (loop_body cfg c s) (\<lambda>_ s'. start_game_loop (pred_numeral k) cfg c s')"
  by (simp add: numeral_eq_Suc)

lemma idle_final_pass:
  "loop_body cfg idle \<lparr>game = sample_game ''Final'' 0 fs, world = w, trace = tr\<rparr> =
     (if all_social_sent fs \<or> retries_exeeded fs
      then Exit 0 \<lparr>game = sample_game ''Final'' 0 fs, world = w, trace = tr @
          [Logged INFO, Called Get_livefeed (sample_game ''Final'' 0 fs),
           Called Update_game (sample_game ''Final'' 0 fs),
           Called Final_score (sample_game ''Final'' 0 fs),
           Called Three_stars (sample_game ''Final'' 0 fs),
           Called Nst_linetool (sample_game ''Final'' 0 fs),
           Logged INFO, Logged INFO, Logged INFO, Logged INFO, Logged INFO, Logged INFO]\<rparr>
      else Normal () \<lparr>game = sample_game ''Final'' 0 (fs\<lparr>retry_count := retry_count fs + 1\<rparr>),
          world = w, trace = tr @
          [Logged INFO, Called Get_livefeed (sample_game ''Final'' 0 fs),
           Called Update_game (sample_game ''Final'' 0 fs),
           Called Final_score (sample_game ''Final'' 0 fs),
           Called Three_stars (sample_game ''Final'' 0 fs),
           Called Nst_linetool (sample_game ''Final'' 0 fs),
           Logged INFO, Slept (final_sleep_time cfg)]\<rparr>)"
  by (simp add: loop_body_def GameState_def final_branch_eq final_dispatch_idle replicate_6
      sample_game_def)

text \<open>
  C4 as stated fails: with maximum retries 5 and dispatchers that always fail, the loop
  is still running after five passes of the Final branch, and the pass in which it exits
  is a sixth pass of the Final branch, which fetches and calls the three dispatchers a
  sixth time.
\<close>

theorem final_sixth_pass_dispatches:
  "final_socials (game \<lparr>game = sample_game ''Final'' 0 unsent, world = 0::nat, trace = []\<rparr>)
     = \<lparr>all_social_sent = False, retry_count = 0, max_retries = 5\<rparr>
   \<and> start_game_loop 5 sample_config idle
        \<lparr>game = sample_game ''Final'' 0 unsent, world = 0, trace = []\<rparr>
      = Normal () (final_state (start_game_loop 5 sample_config idle
          \<lparr>game = sample_game ''Final'' 0 unsent, world = 0, trace = []\<rparr>))
   \<and> start_game_loop 6 sample_config idle
        \<lparr>game = sample_game ''Final'' 0 unsent, world = 0, trace = []\<rparr>
      = Exit 0 (final_state (start_game_loop 6 sample_config idle
          \<lparr>game = sample_game ''Final'' 0 unsent, world = 0, trace = []\<rparr>))
   \<and> calls_of Get_livefeed (trace (final_state (start_game_loop 6 sample_config idle
          \<lparr>game = sample_game ''Final'' 0 unsent, world = 0, trace = []\<rparr>))) = 6
   \<and> calls_of Final_score (trace (final_state (start_game_loop 6 sample_config idle
          \<lparr>game = sample_game ''Final'' 0 unsent, world = 0, trace = []\<rparr>))) = 6
   \<and> calls_of Three_stars (trace (final_state (start_game_loop 6 sample_config idle
          \<lparr>game = sample_game ''Final'' 0 unsent, world = 0, trace = []\<rparr>))) = 6
   \<and> calls_of Nst_linetool (trace (final_state (start_game_loop 6 sample_config idle
          \<lparr>game = sample_game ''Final'' 0 unsent, world = 0, trace = []\<rparr>))) = 6
   \<and> retry_count (final_socials (game (final_state (start_game_loop 6 sample_config idle
          \<lparr>game = sample_game ''Final'' 0 unsent, world = 0, trace = []\<rparr>)))) = 5"
  by (simp add: start_game_loop_numeral idle_final_pass unsent_def retries_exeeded_def
      calls_of_def)

subsection \<open>The core pregame notification\<close>

lemma amo_and_then:
  assumes "at_most_once (final_state m)"
    and "\<And>v s1. m = Normal v s1 \<Longrightarrow> at_most_once s1 \<Longrightarrow> at_most_once (final_state (f v s1))"
  shows "at_most_once (final_state (and_then m f))"
  using assms by (cases m) simp_all

lemma amo_try_except:
  assumes "at_most_once (final_state m)"
    and "\<And>e s1. m = Raise e s1 \<Longrightarrow> at_most_once s1 \<Longrightarrow> at_most_once (final_state (h e s1))"
  shows "at_most_once (final_state (try_except m h))"
  using assms by (cases m) simp_all

lemma amo_logging: "at_most_once s \<Longrightarrow> at_most_once (final_state (logging lv s))"
  by (simp add: at_most_once_def logging_def)

lemma amo_time_sleep: "at_most_once s \<Longrightarrow> at_most_once (final_state (time_sleep n s))"
  by (simp add: at_most_once_def time_sleep_def)

lemma amo_sys_exit: "at_most_once s \<Longrightarrow> at_most_once (final_state (sys_exit a s))"
  by (simp add: sys_exit_def)

lemma amo_count_retry: "at_most_once s \<Longrightarrow> at_most_once (final_state (count_retry s))"
  by (simp add: at_most_once_def count_retry_def core_sent_def)

lemma amo_invoke:
  assumes "at_most_once s" and "nm \<noteq> Generate_game_preview"
    and "core_sent (game s) \<Longrightarrow> core_sent (after (f (game s) (world s)))"
  shows "at_most_once (final_state (invoke nm f s))"
proof (cases rule: invoke_cases [of f s nm])
  case (returned v g' w')
  with assms show ?thesis by (auto simp: at_most_once_def after_def split: if_splits)
next
  case (raised e g' w')
  with assms show ?thesis by (auto simp: at_most_once_def after_def split: if_splits)
qed

lemma amo_core_preview:
  assumes "at_most_once s"
  shows "at_most_once (final_state (core_preview c s))"
proof (cases "map_of (pregametweets (game s)) ''core''")
  case None
  with assms show ?thesis by (simp add: core_preview_def)
next
  case (Some core)
  show ?thesis
  proof (cases core)
    case True
    with Some assms show ?thesis by (simp add: core_preview_def)
  next
    case False
    with Some have no: "\<not> core_sent (game s)" by (simp add: core_sent_def)
    with assms have zero: "filter core_emitted (trace s) = []"
      by (simp add: at_most_once_def)
    have cp: "core_preview c s = invoke Generate_game_preview (generate_game_preview c) s"
      using Some False by (simp add: core_preview_def)
    show ?thesis
      unfolding cp
      by (cases rule: invoke_cases [of "generate_game_preview c" s Generate_game_preview])
         (simp_all add: at_most_once_def zero)
  qed
qed

lemma stable_after:
  assumes "stable c P" and "P g"
  shows "P (after (generate_game_preview c g w))" "P (after (game_preview_others c g w))"
    "P (after (update_game c resp g w))" "P (after (live_loop c resp g w))"
    "P (after (final_score c resp g w))" "P (after (three_stars c resp g w))"
    "P (after (nst_linetool c g tm w))" "P (after (fetch c g w))"
  using assms by (simp_all add: stable_def fetch_after)

lemmas amo_steps = amo_and_then amo_try_except amo_logging amo_time_sleep amo_sys_exit
  amo_count_retry amo_core_preview

lemma amo_end_game_loop: "at_most_once s \<Longrightarrow> at_most_once (final_state (end_game_loop s))"
  unfolding end_game_loop_def by (intro amo_steps) 

lemma amo_preview_branch:
  assumes "stable c core_sent" and "at_most_once s"
  shows "at_most_once (final_state (preview_branch cfg c s))"
  unfolding preview_branch_def using assms
  by (auto intro!: amo_steps amo_invoke stable_after [OF assms(1)])

lemma amo_live_branch:
  assumes "stable c core_sent" and "at_most_once s"
  shows "at_most_once (final_state (live_branch cfg c s))"
  unfolding live_branch_def live_try_def live_except_def using assms
  by (auto intro!: amo_steps amo_invoke stable_after [OF assms(1)])

lemma amo_final_branch:
  assumes "stable c core_sent" and "at_most_once s"
  shows "at_most_once (final_state (final_branch cfg c s))"
  unfolding final_branch_def final_dispatch_def final_check_def using assms
  by (auto intro!: amo_steps amo_invoke amo_end_game_loop stable_after [OF assms(1)])

lemma amo_unknown_branch:
  assumes "at_most_once s"
  shows "at_most_once (final_state (unknown_branch cfg s))"
  unfolding unknown_branch_def using assms
  by (auto intro!: amo_steps)


lemma amo_loop_body:
  assumes "stable c core_sent" and "at_most_once s"
  shows "at_most_once (final_state (loop_body cfg c s))"
proof (cases "GameState (game_state (game s))")
  case (Inl e)
  with assms(2) show ?thesis by (simp add: loop_body_def)
next
  case (Inr p)
  then show ?thesis
    using amo_preview_branch [OF assms] amo_live_branch [OF assms] amo_final_branch [OF assms]
      amo_unknown_branch [OF assms(2)]
    by (cases p) (simp_all add: loop_body_def)
qed

lemma amo_start_game_loop:
  assumes "stable c core_sent"
  shows "at_most_once s \<Longrightarrow> at_most_once (final_state (start_game_loop n cfg c s))"
proof (induction n arbitrary: s)
  case 0
  then show ?case by simp
next
  case (Suc n)
  show ?case
    unfolding start_game_loop.simps
    by (rule amo_and_then [OF amo_loop_body [OF assms Suc.prems]]) (rule Suc.IH)
qed

lemma preview_core_calls:
  assumes "GameState (game_state (game s)) = Inr PREVIEW" and "0 < game_time_countdown (game s)"
  shows "calls_of Generate_game_preview (trace (final_state (loop_body cfg c s))) =
     calls_of Generate_game_preview (trace s)
       + (if map_of (pregametweets (game s)) ''core'' = Some False then 1 else 0)"
  using assms
  unfolding loop_body_def preview_branch_def core_preview_def logging_def time_sleep_def
    invoke_def calls_of_def
  by (auto split: option.splits prod.splits sum.splits)

text \<open>
  C6. In a pass of the Preview branch with a positive countdown,
  \<open>generate_game_preview\<close> is called exactly when \<open>pregametweets["core"]\<close> is \<open>False\<close>.
  If no call of another module resets a set flag, then over a run of any number of
  passes the core pregame notification is emitted at most once.
\<close>

theorem core_preview_once:
  assumes "stable c core_sent"
  shows "(GameState (game_state (game s)) = Inr PREVIEW \<and> 0 < game_time_countdown (game s)
      \<longrightarrow> calls_of Generate_game_preview (trace (final_state (loop_body cfg c s))) =
          calls_of Generate_game_preview (trace s)
            + (if map_of (pregametweets (game s)) ''core'' = Some False then 1 else 0))
    \<and> (filter core_emitted (trace s) = []
      \<longrightarrow> length (filter core_emitted (trace (final_state (start_game_loop n cfg c s)))) \<le> 1)"
proof (intro conjI impI)
  assume a: "GameState (game_state (game s)) = Inr PREVIEW \<and> 0 < game_time_countdown (game s)"
  show "calls_of Generate_game_preview (trace (final_state (loop_body cfg c s))) =
          calls_of Generate_game_preview (trace s)
            + (if map_of (pregametweets (game s)) ''core'' = Some False then 1 else 0)"
    by (rule preview_core_calls [OF a [THEN conjunct1] a [THEN conjunct2]])
next
  assume "filter core_emitted (trace s) = []"
  then have "at_most_once s" by (simp add: at_most_once_def)
  from amo_start_game_loop [OF assms this, of n cfg]
  show "length (filter core_emitted (trace (final_state (start_game_loop n cfg c s)))) \<le> 1"
    by (simp add: at_most_once_def split: if_splits)
qed

lemma stable_publishing: "stable publishing core_sent"
  by (simp add: stable_def publishing_def idle_def after_def core_sent_def)

theorem core_preview_once_witness:
  "calls_of Generate_game_preview (trace (final_state (loop_body sample_config publishing
       \<lparr>game = sample_game ''Preview'' 3600 unsent, world = 0, trace = []\<rparr>))) = 1
   \<and> length (filter core_emitted (trace (final_state (start_game_loop 3 sample_config publishing
       \<lparr>game = sample_game ''Preview'' 3600 unsent, world = 0, trace = []\<rparr>)))) \<le> 1"
proof -
  let ?s = "\<lparr>game = sample_game ''Preview'' 3600 unsent, world = 0::nat, trace = []\<rparr>"
  note once = core_preview_once [OF stable_publishing, of ?s sample_config 3]
  have pre: "GameState (game_state (game ?s)) = Inr PREVIEW \<and> 0 < game_time_countdown (game ?s)"
    by (simp add: GameState_def)
  have "calls_of Generate_game_preview (trace (final_state (loop_body sample_config publishing ?s))) =
          calls_of Generate_game_preview (trace ?s)
            + (if map_of (pregametweets (game ?s)) ''core'' = Some False then 1 else 0)"
    by (rule once [THEN conjunct1, rule_format, OF pre])
  then have one: "calls_of Generate_game_preview
      (trace (final_state (loop_body sample_config publishing ?s))) = 1"
    by (simp add: calls_of_def)
  have "filter core_emitted (trace ?s) = []" by simp
  from once [THEN conjunct2, rule_format, OF this] one show ?thesis by simp
qed

end
